theory Spec2Isabelle
  imports Complex_Main
begin

section \<open>Numbers\<close>

text \<open>
  A JavaScript \<open>number\<close> that holds a finite value is modelled by the real it denotes, and
  the comparisons of the source are the comparisons of these reals. In the two functions
  of the source that compute with fractions, \<open>convertTemperature\<close> and \<open>calculateBMI\<close>, every
  arithmetic operation, and every conversion of a decimal string to a number, gives the
  double nearest to the exact result: the function \<open>fl\<close> below. The exponent of \<open>fl\<close> is
  not bounded: overflow to \<open>Infinity\<close>, underflow to subnormal numbers and the sign of zero
  are outside the model. In the table of ranges and in the thresholds of the comparisons a
  decimal literal of the source is written as its decimal value, and the window of the
  data table is computed from the reals with exact arithmetic. \<open>NaN\<close> and the absent values
  appear only where the source tests for them (see \<open>vital_value\<close> below).
\<close>

text \<open>The integer nearest to a real, the even one of the two on a tie.\<close>

definition rne :: "real \<Rightarrow> int" where
  "rne y =
     (let f = \<lfloor>y\<rfloor>; r = y - of_int f
      in if r < 1 / 2 then f else if 1 / 2 < r then f + 1 else if even f then f else f + 1)"

text \<open>
  The double nearest to a positive real, ties to the even significand: the real is scaled
  by powers of two until it has 53 binary digits before the point, rounded to an integer,
  and scaled back.
\<close>

function fl_pos :: "real \<Rightarrow> real" where
  "fl_pos x =
     (if x \<le> 0 then 0
      else if 2 ^ 53 \<le> x then 2 * fl_pos (x / 2)
      else if x < 2 ^ 52 then fl_pos (2 * x) / 2
      else of_int (rne x))"
  by pat_completeness auto

termination fl_pos
proof (relation
    "measure (\<lambda>x. if 2 ^ 52 \<le> x then nat \<lceil>x\<rceil> else nat \<lceil>2 ^ 53 / x\<rceil> + 2 ^ 53)")
  show "wf (measure (\<lambda>x::real.
      if 2 ^ 52 \<le> x then nat \<lceil>x\<rceil> else nat \<lceil>2 ^ 53 / x\<rceil> + 2 ^ 53))"
    by simp
next
  fix x :: real
  assume a: "\<not> x \<le> 0" "2 ^ 53 \<le> x"
  then have "x / 2 \<le> x - 1" by simp
  then have "\<lceil>x / 2\<rceil> \<le> \<lceil>x - 1\<rceil>" by (rule ceiling_mono)
  then have "\<lceil>x / 2\<rceil> < \<lceil>x\<rceil>" by simp
  moreover have "0 < \<lceil>x\<rceil>" using a by simp
  ultimately have "nat \<lceil>x / 2\<rceil> < nat \<lceil>x\<rceil>" by linarith
  moreover have "(2::real) ^ 52 \<le> x / 2" "(2::real) ^ 52 \<le> x" using a(2) by simp_all
  ultimately show "(x / 2, x) \<in> measure (\<lambda>x.
      if 2 ^ 52 \<le> x then nat \<lceil>x\<rceil> else nat \<lceil>2 ^ 53 / x\<rceil> + 2 ^ 53)"
    by simp
next
  fix x :: real
  assume a: "\<not> x \<le> 0" "\<not> 2 ^ 53 \<le> x" "x < 2 ^ 52"
  have xm: "\<not> 2 ^ 52 \<le> x" using a(3) by simp
  have pos: "0 < \<lceil>2 ^ 53 / x\<rceil>"
  proof -
    have "0 < 2 ^ 53 / x" using a(1) by simp
    then show ?thesis by simp
  qed
  show "(2 * x, x) \<in> measure (\<lambda>x.
      if 2 ^ 52 \<le> x then nat \<lceil>x\<rceil> else nat \<lceil>2 ^ 53 / x\<rceil> + 2 ^ 53)"
  proof (cases "(2::real) ^ 52 \<le> 2 * x")
    case True
    have "2 * x \<le> 2 ^ 53" using a(3) by simp
    then have "\<lceil>2 * x\<rceil> \<le> \<lceil>(2::real) ^ 53\<rceil>" by (rule ceiling_mono)
    then have "nat \<lceil>2 * x\<rceil> \<le> 2 ^ 53" by simp
    with pos have "nat \<lceil>2 * x\<rceil> < nat \<lceil>2 ^ 53 / x\<rceil> + 2 ^ 53" by linarith
    with True xm show ?thesis by simp
  next
    case False
    have "2 \<le> 2 ^ 53 / x" using a(1,3) by (simp add: field_simps)
    then have "2 ^ 53 / x / 2 \<le> 2 ^ 53 / x - 1" by simp
    then have "\<lceil>2 ^ 53 / x / 2\<rceil> \<le> \<lceil>2 ^ 53 / x - 1\<rceil>" by (rule ceiling_mono)
    then have "\<lceil>2 ^ 53 / x / 2\<rceil> < \<lceil>2 ^ 53 / x\<rceil>" by simp
    moreover have "2 ^ 53 / x / 2 = 2 ^ 53 / (2 * x)" by simp
    ultimately have "\<lceil>2 ^ 53 / (2 * x)\<rceil> < \<lceil>2 ^ 53 / x\<rceil>" by (simp only:)
    with pos have "nat \<lceil>2 ^ 53 / (2 * x)\<rceil> < nat \<lceil>2 ^ 53 / x\<rceil>" by linarith
    with False xm show ?thesis by simp
  qed
qed

declare fl_pos.simps [simp del]

text \<open>The double nearest to a real.\<close>

definition fl :: "real \<Rightarrow> real" where
  "fl x = (if x < 0 then - fl_pos (- x) else fl_pos x)"

text \<open>
  The value of the decimal string \<open>x.toFixed(1)\<close>. ECMAScript's \<open>toFixed\<close> takes the sign
  off, picks the integer \<open>n\<close> with \<open>n / 10\<close> closest to the exact value of the double, the
  larger \<open>n\<close> on a tie, and puts the sign back. The source always wraps the string in
  \<open>Number(...)\<close>, which is \<open>fl\<close> of this value.
\<close>

definition toFixed1 :: "real \<Rightarrow> real" where
  "toFixed1 x =
     (if x < 0 then - (of_int \<lfloor>10 * (- x) + 1 / 2\<rfloor> / 10)
      else of_int \<lfloor>10 * x + 1 / 2\<rfloor> / 10)"

section \<open>Vitals utilities\<close>

text \<open>
  \<open>convertTemperature(value, from)\<close>. The unit is the string the source compares with:
  every \<open>from\<close> other than \<open>'F'\<close> takes the second return. The subtraction, the two
  quotients of constants, the products and the sum are each rounded to a double.
\<close>

definition convertTemperature :: "real \<Rightarrow> string \<Rightarrow> real" where
  "convertTemperature v from =
     (if from = ''F'' then fl (toFixed1 (fl (fl (v - 32) * fl (5 / 9))))
      else fl (toFixed1 (fl (fl (v * fl (9 / 5)) + 32))))"


definition getBMICategory :: "real \<Rightarrow> string" where
  "getBMICategory bmi =
     (if bmi < 18.5 then ''Underweight''
      else if bmi < 25 then ''Normal''
      else if bmi < 30 then ''Overweight''
      else ''Obese'')"

subsection \<open>Numbers and indices as strings\<close>

definition digit_char :: "nat \<Rightarrow> char" where
  "digit_char d = ''0123456789'' ! d"

text \<open>\<open>String(n)\<close> of a non-negative integer: its decimal digits.\<close>

fun nat_to_string :: "nat \<Rightarrow> string" where
  "nat_to_string n =
     (if n < 10 then [digit_char n] else nat_to_string (n div 10) @ [digit_char (n mod 10)])"

declare nat_to_string.simps [simp del]

text \<open>
  The number-to-string conversion of a template literal, for a non-negative number with
  at most one fractional digit; every bound of the table below is one.
\<close>

definition number_to_string :: "real \<Rightarrow> string" where
  "number_to_string x =
     (let n = nat \<lfloor>x\<rfloor>; d = nat \<lfloor>10 * x\<rfloor> - 10 * n
      in if d = 0 then nat_to_string n else nat_to_string n @ ''.'' @ [digit_char d])"

subsection \<open>The table of ranges\<close>

text \<open>
  An entry of \<open>VITAL_RANGES\<close>. The weight and height entries have no \<open>normalMin\<close> and
  \<open>normalMax\<close> properties. The degree sign of the temperature units is the code unit B0.
\<close>

record VitalRange =
  min_bound :: real
  max_bound :: real
  normalMin :: "real option"
  normalMax :: "real option"
  unit :: string

definition VITAL_RANGES_entries :: "(string \<times> VitalRange) list" where
  "VITAL_RANGES_entries =
    [(''bloodPressureSystolic'',
        \<lparr>min_bound = 70, max_bound = 200, normalMin = Some 90, normalMax = Some 140,
         unit = ''mmHg''\<rparr>),
     (''bloodPressureDiastolic'',
        \<lparr>min_bound = 40, max_bound = 130, normalMin = Some 60, normalMax = Some 90,
         unit = ''mmHg''\<rparr>),
     (''heartRate'',
        \<lparr>min_bound = 30, max_bound = 250, normalMin = Some 60, normalMax = Some 100,
         unit = ''bpm''\<rparr>),
     (''temperatureF'',
        \<lparr>min_bound = 90, max_bound = 110, normalMin = Some 97.0, normalMax = Some 99.5,
         unit = [CHR 0xB0, CHR ''F'']\<rparr>),
     (''temperatureC'',
        \<lparr>min_bound = 32.2, max_bound = 43.3, normalMin = Some 36.1, normalMax = Some 37.5,
         unit = [CHR 0xB0, CHR ''C'']\<rparr>),
     (''respiratoryRate'',
        \<lparr>min_bound = 8, max_bound = 40, normalMin = Some 12, normalMax = Some 20,
         unit = ''breaths/min''\<rparr>),
     (''oxygenSaturation'',
        \<lparr>min_bound = 70, max_bound = 100, normalMin = Some 95, normalMax = Some 100,
         unit = ''%''\<rparr>),
     (''weightLb'',
        \<lparr>min_bound = 1, max_bound = 1000, normalMin = None, normalMax = None,
         unit = ''lb''\<rparr>),
     (''weightKg'',
        \<lparr>min_bound = 0.5, max_bound = 450, normalMin = None, normalMax = None,
         unit = ''kg''\<rparr>),
     (''heightIn'',
        \<lparr>min_bound = 10, max_bound = 108, normalMin = None, normalMax = None,
         unit = ''in''\<rparr>),
     (''heightCm'',
        \<lparr>min_bound = 25, max_bound = 275, normalMin = None, normalMax = None,
         unit = ''cm''\<rparr>),
     (''painLevel'',
        \<lparr>min_bound = 0, max_bound = 10, normalMin = Some 0, normalMax = Some 3,
         unit = []\<rparr>)]"

text \<open>
  \<open>VITAL_RANGES[rangeKey]\<close>: \<open>None\<close> is \<open>undefined\<close>. A key that the object only inherits
  (\<open>toString\<close>, \<open>constructor\<close>) yields a value with none of the five properties, and both
  functions below then return what they return for \<open>undefined\<close>.
\<close>

definition VITAL_RANGES :: "string \<Rightarrow> VitalRange option" where
  "VITAL_RANGES = map_of VITAL_RANGES_entries"

text \<open>
  The resolution of the range key, the same block in \<open>isValueNormal\<close> and in
  \<open>validateVitalValue\<close>. The optional \<open>unit\<close> argument is \<open>None\<close> when it is left out.
\<close>

definition rangeKey :: "string \<Rightarrow> string option \<Rightarrow> string" where
  "rangeKey f u =
     (if f = ''temperature'' then (if u = Some ''C'' then ''temperatureC'' else ''temperatureF'')
      else if f = ''weight'' then (if u = Some ''kg'' then ''weightKg'' else ''weightLb'')
      else if f = ''height'' then (if u = Some ''cm'' then ''heightCm'' else ''heightIn'')
      else f)"

subsection \<open>Classification and validation\<close>

datatype status = normal | low | high | unknown

text \<open>
  \<open>isValueNormal(field, value, unit?)\<close>. The test \<open>'normalMin' in range\<close> looks at
  \<open>normalMin\<close> only; a comparison with an absent \<open>normalMax\<close> is false.
\<close>

definition isValueNormal :: "string \<Rightarrow> real \<Rightarrow> string option \<Rightarrow> status" where
  "isValueNormal f v u =
     (case VITAL_RANGES (rangeKey f u) of
        None \<Rightarrow> unknown
      | Some rng \<Rightarrow>
          (case normalMin rng of
             None \<Rightarrow> unknown
           | Some lo \<Rightarrow>
               if v < lo then low
               else if (case normalMax rng of None \<Rightarrow> False | Some hi \<Rightarrow> v > hi) then high
               else normal))"

record ValidationError =
  field :: string
  message :: string

text \<open>What \<open>validateVitalValue\<close> can be given as its value.\<close>

datatype vital_value = Undefined | Null | NaN | Num real

definition validateVitalValue ::
  "string \<Rightarrow> vital_value \<Rightarrow> string option \<Rightarrow> ValidationError option" where
  "validateVitalValue f val u =
     (case val of
        Undefined \<Rightarrow> None
      | Null \<Rightarrow> None
      | NaN \<Rightarrow> None
      | Num v \<Rightarrow>
          (case VITAL_RANGES (rangeKey f u) of
             None \<Rightarrow> None
           | Some rng \<Rightarrow>
               if v < min_bound rng \<or> v > max_bound rng then
                 Some \<lparr>field = f,
                   message = f @ '' must be between '' @ number_to_string (min_bound rng) @
                     '' and '' @ number_to_string (max_bound rng) @ '' '' @ unit rng\<rparr>
               else None))"

section \<open>The vital signs form\<close>

text \<open>
  The state \<open>vitals\<close> of the component. The unit selectors are the strings the component
  passes on as \<open>unit\<close>.
\<close>

record VitalSigns =
  bloodPressureSystolic :: real
  bloodPressureDiastolic :: real
  heartRate :: real
  temperature :: real
  temperatureUnit :: string
  respiratoryRate :: real
  oxygenSaturation :: real
  weight :: real
  weightUnit :: string
  height :: real
  heightUnit :: string
  painLevel :: real

definition DEFAULT_VITALS :: VitalSigns where
  "DEFAULT_VITALS =
     \<lparr>bloodPressureSystolic = 0, bloodPressureDiastolic = 0, heartRate = 0, temperature = 0,
      temperatureUnit = ''F'', respiratoryRate = 0, oxygenSaturation = 0, weight = 0,
      weightUnit = ''lb'', height = 0, heightUnit = ''in'', painLevel = 0\<rparr>"

text \<open>The list \<open>fieldsToValidate\<close> of the validation effect: field, value and optional unit.\<close>

definition fieldsToValidate :: "VitalSigns \<Rightarrow> (string \<times> real \<times> string option) list" where
  "fieldsToValidate vitals =
     [(''bloodPressureSystolic'', bloodPressureSystolic vitals, None),
      (''bloodPressureDiastolic'', bloodPressureDiastolic vitals, None),
      (''heartRate'', heartRate vitals, None),
      (''temperature'', temperature vitals, Some (temperatureUnit vitals)),
      (''respiratoryRate'', respiratoryRate vitals, None),
      (''oxygenSaturation'', oxygenSaturation vitals, None),
      (''weight'', weight vitals, Some (weightUnit vitals)),
      (''height'', height vitals, Some (heightUnit vitals)),
      (''painLevel'', painLevel vitals, None)]"

text \<open>
  The loop of the validation effect over \<open>fieldsToValidate\<close>, with its two accumulators:
  the list \<open>validationErrors\<close> and the object \<open>newErrors\<close> from field to message.
\<close>

fun validationLoop ::
  "(string \<times> real \<times> string option) list \<Rightarrow> ValidationError list \<Rightarrow> (string \<rightharpoonup> string) \<Rightarrow>
     ValidationError list \<times> (string \<rightharpoonup> string)" where
  "validationLoop [] validationErrors newErrors = (validationErrors, newErrors)"
| "validationLoop ((f, v, u) # rest) validationErrors newErrors =
     (if v = 0 then validationLoop rest validationErrors newErrors
      else
        (case validateVitalValue f (Num v) u of
           None \<Rightarrow> validationLoop rest validationErrors newErrors
         | Some err \<Rightarrow>
             validationLoop rest (validationErrors @ [err]) (newErrors(f \<mapsto> message err))))"

text \<open>
  What one run of the validation effect does: the object given to \<open>setErrors\<close>, and the
  list given to \<open>onValidationError\<close> when that callback is present and the list is not
  empty (\<open>None\<close>: the callback is not called).
\<close>

record validation_effect =
  setErrors :: "string \<rightharpoonup> string"
  onValidationError :: "ValidationError list option"

definition runValidation :: "VitalSigns \<Rightarrow> bool \<Rightarrow> validation_effect" where
  "runValidation vitals hasOnValidationError =
     (case validationLoop (fieldsToValidate vitals) [] Map.empty of
        (validationErrors, newErrors) \<Rightarrow>
          \<lparr>setErrors = newErrors,
           onValidationError =
             (if hasOnValidationError \<and> length validationErrors > 0 then Some validationErrors
              else None)\<rparr>)"

text \<open>\<open>vitals[field]\<close>, the property of the state under a name.\<close>

datatype property = Absent | Number real | Text string

definition vitals_property :: "VitalSigns \<Rightarrow> string \<Rightarrow> property" where
  "vitals_property vitals f =
     (if f = ''bloodPressureSystolic'' then Number (bloodPressureSystolic vitals)
      else if f = ''bloodPressureDiastolic'' then Number (bloodPressureDiastolic vitals)
      else if f = ''heartRate'' then Number (heartRate vitals)
      else if f = ''temperature'' then Number (temperature vitals)
      else if f = ''temperatureUnit'' then Text (temperatureUnit vitals)
      else if f = ''respiratoryRate'' then Number (respiratoryRate vitals)
      else if f = ''oxygenSaturation'' then Number (oxygenSaturation vitals)
      else if f = ''weight'' then Number (weight vitals)
      else if f = ''weightUnit'' then Text (weightUnit vitals)
      else if f = ''height'' then Number (height vitals)
      else if f = ''heightUnit'' then Text (heightUnit vitals)
      else if f = ''painLevel'' then Number (painLevel vitals)
      else Absent)"

text \<open>
  \<open>getAbnormalIndicator(field, unit?)\<close>: the text of the indicator, \<open>None\<close> for \<open>null\<close>. A
  missing property and the empty string are falsy. A non-empty string passes the first
  test, but it is the value of a unit selector, whose name is no key of the table, and
  \<open>isValueNormal\<close> answers unknown.
\<close>

definition getAbnormalIndicator :: "VitalSigns \<Rightarrow> string \<Rightarrow> string option \<Rightarrow> string option" where
  "getAbnormalIndicator vitals f u =
     (case vitals_property vitals f of
        Absent \<Rightarrow> None
      | Text s \<Rightarrow> None
      | Number v \<Rightarrow>
          if v = 0 then None
          else
            (case isValueNormal f v u of
               low \<Rightarrow> Some ''Low''
             | high \<Rightarrow> Some ''High''
             | normal \<Rightarrow> None
             | unknown \<Rightarrow> None))"

section \<open>The data table\<close>

definition ROW_HEIGHT :: real where
  "ROW_HEIGHT = 41"

text \<open>
  \<open>shouldVirtualize\<close>, from the number of rows, the \<open>virtualizeThreshold\<close> property and the
  \<open>loading\<close> flag.
\<close>

definition shouldVirtualize :: "nat \<Rightarrow> real \<Rightarrow> bool \<Rightarrow> bool" where
  "shouldVirtualize dataLength virtualizeThreshold loading \<longleftrightarrow>
     real dataLength > virtualizeThreshold \<and> \<not> loading"

record VirtualState =
  totalHeight :: real
  startIndex :: int
  endIndex :: int
  offsetY :: real

text \<open>
  \<open>virtualState\<close>, recomputed from \<open>data.length\<close>, \<open>scrollTop\<close> and \<open>containerHeight\<close>;
  \<open>None\<close> is \<open>null\<close>.
\<close>

definition virtualState :: "bool \<Rightarrow> nat \<Rightarrow> real \<Rightarrow> real \<Rightarrow> VirtualState option" where
  "virtualState virtualize dataLength scrollTop containerHeight =
     (if \<not> virtualize then None
      else
        let startIdx = max 0 (\<lfloor>scrollTop / ROW_HEIGHT\<rfloor> - 5);
            visibleCount = \<lceil>containerHeight / ROW_HEIGHT\<rceil> + 10;
            endIdx = min (int dataLength) (startIdx + visibleCount)
        in Some \<lparr>totalHeight = real dataLength * ROW_HEIGHT, startIndex = startIdx,
             endIndex = endIdx, offsetY = of_int startIdx * ROW_HEIGHT\<rparr>)"

subsection \<open>Sorting\<close>

datatype direction = asc | desc

record sorting =
  column :: string
  direction :: direction

text \<open>The two properties of a \<open>ColumnDef\<close> that sorting reads; \<open>sortable\<close> is optional.\<close>

record ColumnDef =
  id_col :: string
  sortable :: "bool option"

text \<open>
  \<open>handleSort(col)\<close>: the arguments of the call of \<open>sorting.onSort\<close>, \<open>None\<close> when the
  handler returns without calling it. The first argument is the \<open>sorting\<close> property of the
  table, \<open>None\<close> when the table has none.
\<close>

definition handleSort :: "sorting option \<Rightarrow> ColumnDef \<Rightarrow> (string \<times> direction) option" where
  "handleSort srt col =
     (case srt of
        None \<Rightarrow> None
      | Some s \<Rightarrow>
          if sortable col \<noteq> Some True then None
          else
            let newDir = (if column s = id_col col \<and> direction s = asc then desc else asc)
            in Some (id_col col, newDir))"

text \<open>
  The caller of the sorting story (\<open>SortableComponent\<close>) keeps the sort state and stores
  what \<open>onSort\<close> reports: its state after a click on the header of a column.
\<close>

definition sortableComponentClick :: "sorting \<Rightarrow> ColumnDef \<Rightarrow> sorting" where
  "sortableComponentClick s col =
     (case handleSort (Some s) col of
        None \<Rightarrow> s
      | Some (c, d) \<Rightarrow> \<lparr>column = c, direction = d\<rparr>)"

subsection \<open>Row keys and selection\<close>

text \<open>
  The value of a property of a row (\<open>unknown\<close> in the source): absent or \<open>undefined\<close>,
  \<open>null\<close>, a string, an integer or a boolean. Numbers that are not integers, integers
  from \<open>10 ^ 21\<close> on (which \<open>String\<close> prints with an exponent) and objects are left out of
  the model.
\<close>

datatype jsvalue = JUndefined | JNull | JString string | JInt int | JBool bool

type_synonym row = "string \<Rightarrow> jsvalue"

text \<open>\<open>String(v)\<close>.\<close>

fun String_of :: "jsvalue \<Rightarrow> string" where
  "String_of JUndefined = ''undefined''"
| "String_of JNull = ''null''"
| "String_of (JString s) = s"
| "String_of (JInt i) = (if i < 0 then ''-'' @ nat_to_string (nat (- i)) else nat_to_string (nat i))"
| "String_of (JBool b) = (if b then ''true'' else ''false'')"

text \<open>The \<open>rowKey\<close> property of the table: the name of a property or a function of the row.\<close>

datatype rowKey = KeyName string | KeyFunction "row \<Rightarrow> string"

text \<open>
  \<open>getRowKey(row, index, rowKey)\<close>. The first return, \<open>String(row.id ?? index)\<close>, is taken
  when \<open>!rowKey\<close> holds: for a left-out \<open>rowKey\<close> and for the empty name, never for a
  function. \<open>??\<close> falls through on \<open>null\<close> and \<open>undefined\<close>.
\<close>

definition getRowKey :: "row \<Rightarrow> nat \<Rightarrow> rowKey option \<Rightarrow> string" where
  "getRowKey r index rk =
     (let byId =
        (case r ''id'' of
           JUndefined \<Rightarrow> nat_to_string index
         | JNull \<Rightarrow> nat_to_string index
         | v \<Rightarrow> String_of v)
      in case rk of
           None \<Rightarrow> byId
         | Some (KeyName k) \<Rightarrow> if k = [] then byId else String_of (r k)
         | Some (KeyFunction g) \<Rightarrow> g r)"

datatype selection_mode = single | multiple

record selection =
  selected :: "string list"
  mode :: selection_mode

text \<open>\<open>data.map((row, i) => getRowKey(row, i, rowKey))\<close>.\<close>

definition rowKeys :: "row list \<Rightarrow> rowKey option \<Rightarrow> string list" where
  "rowKeys data rk = map (\<lambda>(i, r). getRowKey r i rk) (enumerate 0 data)"

definition isAllSelected :: "selection option \<Rightarrow> row list \<Rightarrow> rowKey option \<Rightarrow> bool" where
  "isAllSelected sel data rk =
     (case sel of
        None \<Rightarrow> False
      | Some s \<Rightarrow>
          if length data = 0 then False
          else list_all (\<lambda>(i, r). getRowKey r i rk \<in> set (selected s)) (enumerate 0 data))"

text \<open>
  \<open>handleSelectAll()\<close>: the argument of the call of \<open>selection.onSelectionChange\<close>, \<open>None\<close>
  when the handler returns without calling it.
\<close>

definition handleSelectAll :: "selection option \<Rightarrow> row list \<Rightarrow> rowKey option \<Rightarrow> string list option" where
  "handleSelectAll sel data rk =
     (case sel of
        None \<Rightarrow> None
      | Some s \<Rightarrow> if isAllSelected sel data rk then Some [] else Some (rowKeys data rk))"

section \<open>Reading a decimal string\<close>

text \<open>
  Not part of the program: the value of a string of decimal digits, used to prove that
  \<open>nat_to_string\<close> gives different strings for different numbers.
\<close>

definition digit_value :: "char \<Rightarrow> nat" where
  "digit_value c = of_char c - 48"

definition string_to_nat :: "string \<Rightarrow> nat" where
  "string_to_nat s = foldl (\<lambda>acc c. 10 * acc + digit_value c) 0 s"

section \<open>Rounding\<close>

lemma rne_close: "\<bar>of_int (rne y) - y\<bar> \<le> 1 / 2"
proof -
  have "of_int \<lfloor>y\<rfloor> \<le> y" "y < of_int \<lfloor>y\<rfloor> + 1" by linarith+
  then show ?thesis by (auto simp add: rne_def Let_def)
qed

lemma fl_pos_zero: "x \<le> 0 \<Longrightarrow> fl_pos x = 0"
  by (subst fl_pos.simps) simp

lemma fl_pos_double:
  assumes "0 < x"
  shows "fl_pos (2 * x) = 2 * fl_pos x"
proof (cases "x < 2 ^ 52")
  case True
  then have "\<not> 2 ^ 53 \<le> x" by simp
  with True assms have "fl_pos x = fl_pos (2 * x) / 2"
    by (subst fl_pos.simps) simp
  then show ?thesis by simp
next
  case False
  then have "(2::real) ^ 53 \<le> 2 * x" by simp
  with assms have "fl_pos (2 * x) = 2 * fl_pos (2 * x / 2)"
    by (subst fl_pos.simps) simp
  then show ?thesis by simp
qed

lemma fl_pos_scale:
  assumes "0 < x"
  shows "fl_pos (x * 2 ^ k) = fl_pos x * 2 ^ k"
proof (induction k)
  case 0
  show ?case by simp
next
  case (Suc k)
  have "fl_pos (x * 2 ^ Suc k) = fl_pos (2 * (x * 2 ^ k))"
    by (simp add: mult.commute mult.left_commute)
  also have "\<dots> = 2 * fl_pos (x * 2 ^ k)"
    using assms by (intro fl_pos_double) simp
  also have "\<dots> = fl_pos x * 2 ^ Suc k"
    using Suc by simp
  finally show ?case .
qed

text \<open>
  How a double is computed: when \<open>x\<close> times \<open>2 ^ k\<close> has 53 binary digits before the point,
  its double is that product rounded to an integer, over \<open>2 ^ k\<close>.
\<close>

lemma fl_eval:
  assumes "2 ^ 52 \<le> x * 2 ^ k" "x * 2 ^ k < 2 ^ 53" "rne (x * 2 ^ k) = m"
  shows "fl x = of_int m / 2 ^ k"
proof -
  have "(0::real) < 2 ^ 52" by simp
  with assms(1) have pos: "0 < x * 2 ^ k" by linarith
  then have x: "0 < x" by (simp add: zero_less_mult_iff)
  have "fl_pos (x * 2 ^ k) = of_int (rne (x * 2 ^ k))"
    using assms(1,2) pos by (subst fl_pos.simps) simp
  with fl_pos_scale [OF x, of k] assms(3) have "fl_pos x = of_int m / 2 ^ k"
    by (simp add: field_simps)
  with x show ?thesis by (simp add: fl_def)
qed

text \<open>The relative error of a double is at most \<open>2 ^ -53\<close>.\<close>

lemma fl_pos_error:
  "0 < x \<Longrightarrow> \<bar>fl_pos x - x\<bar> \<le> x / 2 ^ 53"
proof (induction x rule: fl_pos.induct)
  case (1 x)
  consider "2 ^ 53 \<le> x" | "x < 2 ^ 52" | "2 ^ 52 \<le> x" "x < 2 ^ 53" by linarith
  then show ?case
  proof cases
    case 1
    with "1.prems" have e: "fl_pos x = 2 * fl_pos (x / 2)"
      by (subst fl_pos.simps) simp
    have "\<bar>fl_pos (x / 2) - x / 2\<bar> \<le> x / 2 / 2 ^ 53"
      using "1.IH"(1) "1.prems" 1 by simp
    then show ?thesis unfolding e by linarith
  next
    case 2
    then have n: "\<not> 2 ^ 53 \<le> x" by simp
    with 2 "1.prems" have e: "fl_pos x = fl_pos (2 * x) / 2"
      by (subst fl_pos.simps) simp
    have "\<bar>fl_pos (2 * x) - 2 * x\<bar> \<le> 2 * x / 2 ^ 53"
      using "1.IH"(2) "1.prems" 2 n by simp
    then show ?thesis unfolding e by linarith
  next
    case 3
    with "1.prems" have e: "fl_pos x = of_int (rne x)"
      by (subst fl_pos.simps) simp
    have "1 / 2 \<le> x / 2 ^ 53" using 3(1) by simp
    with rne_close [of x] show ?thesis unfolding e by linarith
  qed
qed

lemma fl_error: "\<bar>fl x - x\<bar> \<le> \<bar>x\<bar> / 2 ^ 53"
proof -
  consider "x < 0" | "x = 0" | "0 < x" by linarith
  then show ?thesis
  proof cases
    case 1
    with fl_pos_error [of "- x"] show ?thesis by (simp add: fl_def)
  next
    case 2
    then show ?thesis by (simp add: fl_def fl_pos_zero)
  next
    case 3
    with fl_pos_error [of x] show ?thesis by (simp add: fl_def)
  qed
qed

lemma fl_abs_error:
  assumes "\<bar>x\<bar> \<le> B"
  shows "\<bar>fl x - x\<bar> \<le> B * (1 / 2 ^ 53)"
proof -
  have "\<bar>x\<bar> / 2 ^ 53 \<le> B / 2 ^ 53" using assms by (simp add: divide_right_mono)
  with fl_error [of x] show ?thesis by simp
qed


lemma mult_error:
  fixes t c T C :: real
  assumes "\<bar>t - T\<bar> \<le> e1" "\<bar>c - C\<bar> \<le> e2" "\<bar>c\<bar> \<le> Bc" "\<bar>T\<bar> \<le> BT"
  shows "\<bar>t * c - T * C\<bar> \<le> Bc * e1 + BT * e2"
proof -
  have "t * c - T * C = c * (t - T) + T * (c - C)" by (simp add: algebra_simps)
  then have "\<bar>t * c - T * C\<bar> \<le> \<bar>c * (t - T)\<bar> + \<bar>T * (c - C)\<bar>"
    by (simp only: abs_triangle_ineq)
  moreover have "\<bar>c * (t - T)\<bar> \<le> Bc * e1"
    unfolding abs_mult using assms(1,3)
    by (intro mult_mono) (auto intro: order_trans [OF abs_ge_zero])
  moreover have "\<bar>T * (c - C)\<bar> \<le> BT * e2"
    unfolding abs_mult using assms(2,4)
    by (intro mult_mono) (auto intro: order_trans [OF abs_ge_zero])
  ultimately show ?thesis by linarith
qed

lemma toFixed1_floor:
  assumes "0 \<le> x"
  shows "toFixed1 x = of_int \<lfloor>10 * x + 1 / 2\<rfloor> / 10"
  using assms by (simp add: toFixed1_def)

section \<open>BMI\<close>

text \<open>
  C6. \<open>getBMICategory\<close> compares with strict less-than: below 18.5 is Underweight, from
  18.5 up to but excluding 25 is Normal, from 25 up to but excluding 30 is Overweight, and
  30 or more is Obese; so the boundary values 18.5, 25 and 30 land in the higher category.
\<close>

theorem getBMICategory_bands:
  "(bmi < 18.5 \<longrightarrow> getBMICategory bmi = ''Underweight'') \<and>
   (18.5 \<le> bmi \<and> bmi < 25 \<longrightarrow> getBMICategory bmi = ''Normal'') \<and>
   (25 \<le> bmi \<and> bmi < 30 \<longrightarrow> getBMICategory bmi = ''Overweight'') \<and>
   (30 \<le> bmi \<longrightarrow> getBMICategory bmi = ''Obese'') \<and>
   getBMICategory 18.5 = ''Normal'' \<and>
   getBMICategory 25 = ''Overweight'' \<and>
   getBMICategory 30 = ''Obese''"
  by (simp add: getBMICategory_def)

theorem getBMICategory_bands_witness:
  "(18.49::real) < 18.5 \<and> getBMICategory 18.49 = ''Underweight'' \<and>
   (18.5::real) \<le> 24.99 \<and> (24.99::real) < 25 \<and> getBMICategory 24.99 = ''Normal'' \<and>
   (25::real) \<le> 29.99 \<and> (29.99::real) < 30 \<and> getBMICategory 29.99 = ''Overweight'' \<and>
   (30::real) \<le> 41 \<and> getBMICategory 41 = ''Obese''"
  using getBMICategory_bands [of "18.49"] getBMICategory_bands [of "24.99"]
    getBMICategory_bands [of "29.99"] getBMICategory_bands [of 41]
  by simp






section \<open>Temperature round trip\<close>

text \<open>
  From Fahrenheit to Celsius, for a temperature from 95 to 105: the result is the double
  of a one-decimal number within a twentieth, and the rounding errors of the doubles, of
  the exact Celsius value.
\<close>

lemma fahrenheit_to_celsius:
  assumes "95 \<le> x" "x \<le> 105"
  shows "\<exists>n. convertTemperature x ''F'' = fl (of_int n / 10) \<and> 350 \<le> n \<and> n \<le> 406 \<and>
    \<bar>of_int n / 10 - (x - 32) * (5 / 9)\<bar> \<le> 1 / 20 + 1 / 2 ^ 45"
proof -
  define u :: real where "u = 1 / 2 ^ 53"
  have u: "0 < u" "u \<le> 1 / 1000" by (simp_all add: u_def)
  define A where "A = (x - 32) * (5 / 9)"
  have A: "35 \<le> A" "A \<le> 4056 / 100" using assms by (simp_all add: A_def)
  define t where "t = fl (x - 32)"
  define c where "c = fl (5 / 9)"
  define a where "a = fl (t * c)"
  define n where "n = \<lfloor>10 * a + 1 / 2\<rfloor>"
  have xb: "\<bar>x - 32\<bar> \<le> 73" using assms by simp
  then have t: "\<bar>t - (x - 32)\<bar> \<le> 73 * u"
    unfolding t_def u_def by (rule fl_abs_error)
  have "\<bar>(5::real) / 9\<bar> \<le> 1" by simp
  then have c: "\<bar>c - 5 / 9\<bar> \<le> 1 * u"
    unfolding c_def u_def by (rule fl_abs_error)
  have cb: "\<bar>c\<bar> \<le> 1" using c u by linarith
  have tc: "\<bar>t * c - A\<bar> \<le> 1 * (73 * u) + 73 * (1 * u)"
    unfolding A_def using t c cb xb by (rule mult_error)
  have "\<bar>t * c\<bar> \<le> 42" using tc A u by linarith
  then have a: "\<bar>a - t * c\<bar> \<le> 42 * u"
    unfolding a_def u_def by (rule fl_abs_error)
  have "256 * u = 1 / 2 ^ 45" by (simp add: u_def)
  with a tc u have aA: "\<bar>a - A\<bar> \<le> 1 / 2 ^ 45" by linarith
  have small: "(1::real) / 2 ^ 45 \<le> 1 / 1000" by simp
  have a_pos: "0 \<le> a" using aA A small by linarith
  have conv: "convertTemperature x ''F'' = fl (of_int n / 10)"
    using a_pos
    by (simp only: convertTemperature_def if_True t_def [symmetric] c_def [symmetric]
        a_def [symmetric] toFixed1_floor n_def [symmetric]) simp
  have nb: "of_int n \<le> 10 * a + 1 / 2" "10 * a + 1 / 2 < of_int n + 1"
    unfolding n_def by linarith+
  have "(349::real) < of_int n" "of_int n < (407::real)"
    using nb aA A small by linarith+
  then have n: "350 \<le> n" "n \<le> 406" by linarith+
  have "\<bar>of_int n / 10 - A\<bar> \<le> 1 / 20 + 1 / 2 ^ 45"
    using nb aA by linarith
  with conv n show ?thesis unfolding A_def by blast
qed

text \<open>
  From Celsius to Fahrenheit, for the double of a one-decimal number from 35 to 40.6: the
  rounding errors of the doubles never reach a tie, and the result is the double of the
  exact Fahrenheit value rounded to one decimal.
\<close>

lemma celsius_to_fahrenheit:
  assumes "350 \<le> n" "n \<le> 406"
  shows "convertTemperature (fl (of_int n / 10)) ''C'' =
    fl (of_int ((18 * n + 3205) div 10) / 10)"
proof -
  define u :: real where "u = 1 / 2 ^ 53"
  have u: "0 < u" "u \<le> 1 / 100000" by (simp_all add: u_def)
  define y where "y = fl (of_int n / 10)"
  define d where "d = fl (9 / 5)"
  define p where "p = fl (y * d)"
  define b where "b = fl (p + 32)"
  have nr: "(350::real) \<le> of_int n" "of_int n \<le> (406::real)" using assms by simp_all
  then have n10: "\<bar>(of_int n :: real) / 10\<bar> \<le> 41" by simp
  then have y: "\<bar>y - of_int n / 10\<bar> \<le> 41 * u"
    unfolding y_def u_def by (rule fl_abs_error)
  have "\<bar>(9::real) / 5\<bar> \<le> 2" by simp
  then have d: "\<bar>d - 9 / 5\<bar> \<le> 2 * u"
    unfolding d_def u_def by (rule fl_abs_error)
  have db: "\<bar>d\<bar> \<le> 2" using d u by linarith
  have yd: "\<bar>y * d - of_int n / 10 * (9 / 5)\<bar> \<le> 2 * (41 * u) + 41 * (2 * u)"
    using y d db n10 by (rule mult_error)
  have "\<bar>y * d\<bar> \<le> 74" using yd nr u by linarith
  then have p: "\<bar>p - y * d\<bar> \<le> 74 * u"
    unfolding p_def u_def by (rule fl_abs_error)
  have "\<bar>p + 32\<bar> \<le> 107" using p yd nr u by linarith
  then have b: "\<bar>b - (p + 32)\<bar> \<le> 107 * u"
    unfolding b_def u_def by (rule fl_abs_error)
  have bW: "\<bar>b - (32 + of_int n / 10 * (9 / 5))\<bar> \<le> 345 * u"
    using b p yd by linarith
  have b_pos: "0 \<le> b" using bW nr u by linarith
  define r where "r = (18 * n + 3205) mod 10"
  define m where "m = (18 * n + 3205) div 10"
  have r: "1 \<le> r" "r \<le> 9" unfolding r_def by presburger+
  have "10 * m = 18 * n + 3205 - r" unfolding r_def m_def by presburger
  then have "(10::real) * of_int m = of_int (18 * n + 3205 - r)"
    by (metis of_int_mult of_int_numeral)
  then have e: "(10::real) * of_int m = 18 * of_int n + 3205 - of_int r" by simp
  have rr: "(1::real) \<le> of_int r" "of_int r \<le> (9::real)" using r by simp_all
  have "of_int m \<le> 10 * b + 1 / 2" "10 * b + 1 / 2 < of_int m + 1"
    using bW e rr u by linarith+
  then have "\<lfloor>10 * b + 1 / 2\<rfloor> = m" by (simp add: floor_eq_iff)
  then show ?thesis
    using b_pos
    by (simp only: convertTemperature_def y_def [symmetric] d_def [symmetric] p_def [symmetric]
        b_def [symmetric] toFixed1_floor m_def [symmetric]) simp
qed

lemma roundtrip_tenth:
  assumes "95 \<le> x" "x \<le> 105"
  shows "\<exists>m. convertTemperature (convertTemperature x ''F'') ''C'' = fl (of_int m / 10) \<and>
    950 \<le> m \<and> m \<le> 1060 \<and> \<bar>of_int m / 10 - x\<bar> \<le> 13 / 100 + 1 / 2 ^ 44"
proof -
  from fahrenheit_to_celsius [OF assms] obtain n where
    n: "convertTemperature x ''F'' = fl (of_int n / 10)" "350 \<le> n" "n \<le> 406"
      "\<bar>of_int n / 10 - (x - 32) * (5 / 9)\<bar> \<le> 1 / 20 + 1 / 2 ^ 45"
    by blast
  define m where "m = (18 * n + 3205) div 10"
  define r where "r = (18 * n + 3205) mod 10"
  have z: "convertTemperature (convertTemperature x ''F'') ''C'' = fl (of_int m / 10)"
    unfolding n(1) m_def using n(2,3) by (rule celsius_to_fahrenheit)
  have r: "1 \<le> r" "r \<le> 9" unfolding r_def by presburger+
  have "10 * m = 18 * n + 3205 - r" unfolding r_def m_def by presburger
  then have "(10::real) * of_int m = of_int (18 * n + 3205 - r)"
    by (metis of_int_mult of_int_numeral)
  then have e: "(10::real) * of_int m = 18 * of_int n + 3205 - of_int r" by simp
  have rr: "(1::real) \<le> of_int r" "of_int r \<le> (9::real)" using r by simp_all
  have nr: "(350::real) \<le> of_int n" "of_int n \<le> (406::real)" using n(2,3) by simp_all
  define A where "A = (x - 32) * (5 / 9)"
  have x: "x = 32 + 9 * A / 5" unfolding A_def by (simp add: field_simps)
  have nA: "\<bar>of_int n / 10 - A\<bar> \<le> 1 / 20 + 1 / 2 ^ 45" using n(4) unfolding A_def .
  have "(9::real) / 5 * (1 / 2 ^ 45) \<le> 1 / 2 ^ 44" by simp
  with nA e rr x have d: "\<bar>of_int m / 10 - x\<bar> \<le> 13 / 100 + 1 / 2 ^ 44" by linarith
  have "(949::real) < of_int m" "of_int m < (1061::real)" using e rr nr by linarith+
  then have "950 \<le> m" "m \<le> 1060" by linarith+
  with z d show ?thesis by blast
qed

text \<open>
  C9, as the claim states it, fails: the double of 95.62 degrees Fahrenheit becomes 35.3
  degrees Celsius (the exact value is 35.344...), and 35.3 degrees Celsius become 95.5
  degrees Fahrenheit (the exact value is 95.54), which is 0.12 away from 95.62.
\<close>

theorem convertTemperature_roundtrip_counterexample:
  "95 \<le> fl 95.62 \<and> fl 95.62 \<le> 105 \<and>
   convertTemperature (fl 95.62) ''F'' = fl 35.3 \<and>
   convertTemperature (fl 35.3) ''C'' = fl 95.5 \<and>
   \<not> \<bar>convertTemperature (convertTemperature (fl 95.62) ''F'') ''C'' - fl 95.62\<bar> \<le> 1 / 10"
proof -
  have isF: "(''F'' = ''F'') = True" and isC: "(''C'' = ''F'') = False" by simp_all
  have k5: "fl (5 / 9) = (of_int 5003999585967218 / 2 ^ 53 :: real)"
    by (rule fl_eval) (simp_all add: rne_def Let_def)
  have k9: "fl (9 / 5) = (of_int 8106479329266893 / 2 ^ 52 :: real)"
    by (rule fl_eval) (simp_all add: rne_def Let_def)
  have f0: "fl 95.62 = (of_int 6728659318268232 / 2 ^ 46 :: real)"
    by (rule fl_eval) (simp_all add: rne_def Let_def)
  have f1: "fl (of_int 6728659318268232 / 2 ^ 46 - 32) = (of_int 8953719009165968 / 2 ^ 47 :: real)"
    by (rule fl_eval) (simp_all add: rne_def Let_def)
  have f2: "fl ((of_int 8953719009165968 / 2 ^ 47) * (of_int 5003999585967218 / 2 ^ 53)) = (of_int 4974288338425538 / 2 ^ 47 :: real)"
    by (rule fl_eval) (simp_all add: rne_def Let_def)
  have f3: "toFixed1 (of_int 4974288338425538 / 2 ^ 47) = 35.3"
    by (simp add: toFixed1_def)
  have c0: "fl 35.3 = (of_int 4968033338943078 / 2 ^ 47 :: real)"
    by (rule fl_eval) (simp_all add: rne_def Let_def)
  have c1: "fl ((of_int 4968033338943078 / 2 ^ 47) * (of_int 8106479329266893 / 2 ^ 52)) = (of_int 8942460010097541 / 2 ^ 47 :: real)"
    by (rule fl_eval) (simp_all add: rne_def Let_def)
  have c2: "fl (of_int 8942460010097541 / 2 ^ 47 + 32) = (of_int 6723029818734018 / 2 ^ 46 :: real)"
    by (rule fl_eval) (simp_all add: rne_def Let_def)
  have c3: "toFixed1 (of_int 6723029818734018 / 2 ^ 46) = 95.5"
    by (simp add: toFixed1_def)
  have F: "convertTemperature (fl 95.62) ''F'' = fl 35.3"
    by (simp only: convertTemperature_def isF if_True f0 f1 k5 f2 f3)
  have C: "convertTemperature (fl 35.3) ''C'' = fl 95.5"
    by (simp only: convertTemperature_def isC if_False c0 k9 c1 c2 c3)
  have z: "fl 95.5 = (of_int 6720215068966912 / 2 ^ 46 :: real)"
    by (rule fl_eval) (simp_all add: rne_def Let_def)
  have b: "95 \<le> fl 95.62" "fl 95.62 \<le> 105" unfolding f0 by simp_all
  have d: "\<not> \<bar>fl 95.5 - fl 95.62\<bar> \<le> 1 / 10" unfolding z f0 by simp
  have "\<not> \<bar>convertTemperature (convertTemperature (fl 95.62) ''F'') ''C'' - fl 95.62\<bar>
      \<le> 1 / 10"
    unfolding F C by (rule d)
  with b F C show ?thesis by blast
qed

text \<open>
  Two more round trips. From the double of 95.27 the exact Celsius value is 35.15, a tie;
  the doubles give 35.1 and then 95.2. From the double of 95.3 the result is the double of
  95.4, and the two doubles are a little more than 0.1 apart.
\<close>

lemma convertTemperature_9527:
  "convertTemperature (fl 95.27) ''F'' = fl 35.1 \<and> convertTemperature (fl 35.1) ''C'' = fl 95.2"
proof -
  have isF: "(''F'' = ''F'') = True" and isC: "(''C'' = ''F'') = False" by simp_all
  have k5: "fl (5 / 9) = (of_int 5003999585967218 / 2 ^ 53 :: real)"
    by (rule fl_eval) (simp_all add: rne_def Let_def)
  have k9: "fl (9 / 5) = (of_int 8106479329266893 / 2 ^ 52 :: real)"
    by (rule fl_eval) (simp_all add: rne_def Let_def)
  have f0: "fl 95.27 = (of_int 6704030257806049 / 2 ^ 46 :: real)"
    by (rule fl_eval) (simp_all add: rne_def Let_def)
  have f1: "fl (of_int 6704030257806049 / 2 ^ 46 - 32) = (of_int 8904460888241602 / 2 ^ 47 :: real)"
    by (rule fl_eval) (simp_all add: rne_def Let_def)
  have f2: "fl ((of_int 8904460888241602 / 2 ^ 47) * (of_int 5003999585967218 / 2 ^ 53)) = (of_int 4946922715689779 / 2 ^ 47 :: real)"
    by (rule fl_eval) (simp_all add: rne_def Let_def)
  have f3: "toFixed1 (of_int 4946922715689779 / 2 ^ 47) = 35.1"
    by (simp add: toFixed1_def)
  have c0: "fl 35.1 = (of_int 4939885841272013 / 2 ^ 47 :: real)"
    by (rule fl_eval) (simp_all add: rne_def Let_def)
  have c1: "fl ((of_int 4939885841272013 / 2 ^ 47) * (of_int 8106479329266893 / 2 ^ 52)) = (of_int 8891794514289624 / 2 ^ 47 :: real)"
    by (rule fl_eval) (simp_all add: rne_def Let_def)
  have c2: "fl (of_int 8891794514289624 / 2 ^ 47 + 32) = (of_int 6697697070830060 / 2 ^ 46 :: real)"
    by (rule fl_eval) (simp_all add: rne_def Let_def)
  have c3: "toFixed1 (of_int 6697697070830060 / 2 ^ 46) = 95.2"
    by (simp add: toFixed1_def)
  have F: "convertTemperature (fl 95.27) ''F'' = fl 35.1"
    by (simp only: convertTemperature_def isF if_True f0 f1 k5 f2 f3)
  have C: "convertTemperature (fl 35.1) ''C'' = fl 95.2"
    by (simp only: convertTemperature_def isC if_False c0 k9 c1 c2 c3)
  have z: "fl 95.2 = (of_int 6699104445713613 / 2 ^ 46 :: real)"
    by (rule fl_eval) (simp_all add: rne_def Let_def)
  from F C show ?thesis by blast
qed

lemma convertTemperature_953:
  "convertTemperature (fl 95.3) ''F'' = fl 35.2 \<and> convertTemperature (fl 35.2) ''C'' = fl 95.4 \<and>
   1 / 10 < fl 95.4 - fl 95.3 \<and> fl 95.4 - fl 95.3 \<le> 1 / 10 + 1 / 2 ^ 45"
proof -
  have isF: "(''F'' = ''F'') = True" and isC: "(''C'' = ''F'') = False" by simp_all
  have k5: "fl (5 / 9) = (of_int 5003999585967218 / 2 ^ 53 :: real)"
    by (rule fl_eval) (simp_all add: rne_def Let_def)
  have k9: "fl (9 / 5) = (of_int 8106479329266893 / 2 ^ 52 :: real)"
    by (rule fl_eval) (simp_all add: rne_def Let_def)
  have f0: "fl 95.3 = (of_int 6706141320131379 / 2 ^ 46 :: real)"
    by (rule fl_eval) (simp_all add: rne_def Let_def)
  have f1: "fl (of_int 6706141320131379 / 2 ^ 46 - 32) = (of_int 8908683012892262 / 2 ^ 47 :: real)"
    by (rule fl_eval) (simp_all add: rne_def Let_def)
  have f2: "fl ((of_int 8908683012892262 / 2 ^ 47) * (of_int 5003999585967218 / 2 ^ 53)) = (of_int 4949268340495701 / 2 ^ 47 :: real)"
    by (rule fl_eval) (simp_all add: rne_def Let_def)
  have f3: "toFixed1 (of_int 4949268340495701 / 2 ^ 47) = 35.2"
    by (simp add: toFixed1_def)
  have c0: "fl 35.2 = (of_int 4953959590107546 / 2 ^ 47 :: real)"
    by (rule fl_eval) (simp_all add: rne_def Let_def)
  have c1: "fl ((of_int 4953959590107546 / 2 ^ 47) * (of_int 8106479329266893 / 2 ^ 52)) = (of_int 8917127262193583 / 2 ^ 47 :: real)"
    by (rule fl_eval) (simp_all add: rne_def Let_def)
  have c2: "fl (of_int 8917127262193583 / 2 ^ 47 + 32) = (of_int 6710363444782040 / 2 ^ 46 :: real)"
    by (rule fl_eval) (simp_all add: rne_def Let_def)
  have c3: "toFixed1 (of_int 6710363444782040 / 2 ^ 46) = 95.4"
    by (simp add: toFixed1_def)
  have F: "convertTemperature (fl 95.3) ''F'' = fl 35.2"
    by (simp only: convertTemperature_def isF if_True f0 f1 k5 f2 f3)
  have C: "convertTemperature (fl 35.2) ''C'' = fl 95.4"
    by (simp only: convertTemperature_def isC if_False c0 k9 c1 c2 c3)
  have z: "fl 95.4 = (of_int 6713178194549146 / 2 ^ 46 :: real)"
    by (rule fl_eval) (simp_all add: rne_def Let_def)
  have "1 / 10 < fl 95.4 - fl 95.3 \<and> fl 95.4 - fl 95.3 \<le> 1 / 10 + 1 / 2 ^ 45"
    unfolding z f0 by simp
  with F C show ?thesis by blast
qed

text \<open>
  C9, amended. For every x from 95 to 105, converting x from Fahrenheit to Celsius and the
  result back to Fahrenheit, each step rounded to one decimal, yields the double of a
  one-decimal number \<open>m / 10\<close> that is at most \<open>0.13 + 2 ^ -44\<close> away from x; the result
  itself is at most \<open>0.13 + 2 ^ -43\<close> away from x. When x is the double of a one-decimal
  number \<open>k / 10\<close>, then \<open>m\<close> is \<open>k - 1\<close>, \<open>k\<close> or \<open>k + 1\<close>: the result is x or the double of a
  neighbouring tenth, at most \<open>0.1 + 2 ^ -45\<close> away from x.
\<close>

theorem convertTemperature_roundtrip:
  assumes "95 \<le> x" "x \<le> 105"
  shows "\<exists>m. convertTemperature (convertTemperature x ''F'') ''C'' = fl (of_int m / 10) \<and>
    \<bar>of_int m / 10 - x\<bar> \<le> 13 / 100 + 1 / 2 ^ 44 \<and>
    \<bar>convertTemperature (convertTemperature x ''F'') ''C'' - x\<bar> \<le> 13 / 100 + 1 / 2 ^ 43 \<and>
    (\<forall>k. x = fl (of_int k / 10) \<longrightarrow>
       \<bar>m - k\<bar> \<le> 1 \<and>
       \<bar>convertTemperature (convertTemperature x ''F'') ''C'' - x\<bar> \<le> 1 / 10 + 1 / 2 ^ 45)"
proof -
  let ?z = "convertTemperature (convertTemperature x ''F'') ''C''"
  from roundtrip_tenth [OF assms] obtain m where
    z: "?z = fl (of_int m / 10)" and m: "950 \<le> m" "m \<le> 1060"
    and d: "\<bar>of_int m / 10 - x\<bar> \<le> 13 / 100 + 1 / 2 ^ 44"
    by blast
  have mr: "(950::real) \<le> of_int m" "of_int m \<le> (1060::real)" using m by simp_all
  then have "\<bar>(of_int m :: real) / 10\<bar> \<le> 106" by simp
  then have "\<bar>fl (of_int m / 10) - of_int m / 10\<bar> \<le> 106 * (1 / 2 ^ 53)"
    by (rule fl_abs_error)
  moreover have "(106::real) * (1 / 2 ^ 53) \<le> 1 / 2 ^ 46" by simp
  ultimately have zm: "\<bar>?z - of_int m / 10\<bar> \<le> 1 / 2 ^ 46" unfolding z by linarith
  have s1: "(1::real) / 2 ^ 44 + 1 / 2 ^ 46 \<le> 1 / 2 ^ 43" by simp
  from zm d s1 have far: "\<bar>?z - x\<bar> \<le> 13 / 100 + 1 / 2 ^ 43" by linarith
  have near: "\<bar>m - k\<bar> \<le> 1 \<and> \<bar>?z - x\<bar> \<le> 1 / 10 + 1 / 2 ^ 45"
    if k: "x = fl (of_int k / 10)" for k
  proof -
    define v :: real where "v = of_int k / 10"
    have "\<bar>x - v\<bar> \<le> \<bar>v\<bar> / 2 ^ 53" unfolding k v_def by (rule fl_error)
    moreover have "\<bar>v\<bar> / 2 ^ 53 \<le> \<bar>v\<bar> / 2" by (simp add: field_simps)
    ultimately have "\<bar>v\<bar> \<le> 210" using assms by linarith
    then have "\<bar>fl v - v\<bar> \<le> 210 * (1 / 2 ^ 53)" by (rule fl_abs_error)
    moreover have "(210::real) * (1 / 2 ^ 53) \<le> 1" by simp
    ultimately have "\<bar>v\<bar> \<le> 106" using assms unfolding k v_def by linarith
    then have "\<bar>fl v - v\<bar> \<le> 106 * (1 / 2 ^ 53)" by (rule fl_abs_error)
    moreover have "(106::real) * (1 / 2 ^ 53) \<le> 1 / 2 ^ 46" by simp
    ultimately have xv: "\<bar>x - v\<bar> \<le> 1 / 2 ^ 46" unfolding k v_def by linarith
    have s2: "(1::real) / 2 ^ 44 + 1 / 2 ^ 46 \<le> 1 / 100" by simp
    from d xv s2 have "\<bar>(of_int m :: real) - of_int k\<bar> < 2" unfolding v_def by linarith
    then have "\<bar>(of_int (m - k) :: real)\<bar> < 2" by simp
    then have "\<bar>m - k\<bar> < 2" by linarith
    then have mk: "\<bar>m - k\<bar> \<le> 1" by simp
    then have "\<bar>(of_int m :: real) - of_int k\<bar> \<le> 1" by linarith
    moreover have "(1::real) / 2 ^ 46 + 1 / 2 ^ 46 \<le> 1 / 2 ^ 45" by simp
    ultimately have "\<bar>?z - x\<bar> \<le> 1 / 10 + 1 / 2 ^ 45"
      using zm xv unfolding v_def by linarith
    with mk show ?thesis by blast
  qed
  from z d far near show ?thesis by blast
qed

theorem convertTemperature_roundtrip_witness:
  "95 \<le> fl 98.6 \<and> fl 98.6 \<le> 105 \<and>
   (\<exists>m. convertTemperature (convertTemperature (fl 98.6) ''F'') ''C'' = fl (of_int m / 10) \<and>
      \<bar>m - 986\<bar> \<le> 1) \<and>
   \<bar>convertTemperature (convertTemperature (fl 98.6) ''F'') ''C'' - fl 98.6\<bar>
     \<le> 1 / 10 + 1 / 2 ^ 45"
proof -
  have "\<bar>(98.6::real)\<bar> \<le> 99" by simp
  then have "\<bar>fl 98.6 - 98.6\<bar> \<le> 99 * (1 / 2 ^ 53)" by (rule fl_abs_error)
  moreover have "(99::real) * (1 / 2 ^ 53) \<le> 1" by simp
  ultimately have b: "95 \<le> fl 98.6" "fl 98.6 \<le> 105" by linarith+
  have k: "fl 98.6 = fl (of_int 986 / 10)" by simp
  from convertTemperature_roundtrip [OF b] k obtain m where
    "convertTemperature (convertTemperature (fl 98.6) ''F'') ''C'' = fl (of_int m / 10)"
    "\<bar>m - 986\<bar> \<le> 1"
    "\<bar>convertTemperature (convertTemperature (fl 98.6) ''F'') ''C'' - fl 98.6\<bar>
      \<le> 1 / 10 + 1 / 2 ^ 45"
    by blast
  with b show ?thesis by blast
qed

section \<open>The table of ranges\<close>

lemma VITAL_RANGES_entry:
  assumes "VITAL_RANGES k = Some rng"
  shows "(k, rng) \<in> set VITAL_RANGES_entries"
  using assms unfolding VITAL_RANGES_def by (rule map_of_SomeD)

lemma normal_bounds_ordered:
  assumes "VITAL_RANGES k = Some rng" "normalMin rng = Some lo" "normalMax rng = Some hi"
  shows "lo \<le> hi"
  using VITAL_RANGES_entry [OF assms(1)] assms(2,3)
  unfolding VITAL_RANGES_entries_def by auto

text \<open>The bounds of the table, as the message of a validation error prints them.\<close>

lemma VITAL_RANGES_bounds_printed:
  "map (\<lambda>(k, r). (number_to_string (min_bound r), number_to_string (max_bound r)))
     VITAL_RANGES_entries =
   [(''70'', ''200''), (''40'', ''130''), (''30'', ''250''), (''90'', ''110''),
    (''32.2'', ''43.3''), (''8'', ''40''), (''70'', ''100''), (''1'', ''1000''),
    (''0.5'', ''450''), (''10'', ''108''), (''25'', ''275''), (''0'', ''10'')]"
  by (simp add: VITAL_RANGES_entries_def number_to_string_def nat_to_string.simps
      digit_char_def)

lemma VITAL_RANGES_heartRate:
  "VITAL_RANGES ''heartRate'' =
     Some \<lparr>min_bound = 30, max_bound = 250, normalMin = Some 60, normalMax = Some 100,
       unit = ''bpm''\<rparr>"
  by (simp add: VITAL_RANGES_def VITAL_RANGES_entries_def)

lemma VITAL_RANGES_weightLb:
  "VITAL_RANGES ''weightLb'' =
     Some \<lparr>min_bound = 1, max_bound = 1000, normalMin = None, normalMax = None,
       unit = ''lb''\<rparr>"
  by (simp add: VITAL_RANGES_def VITAL_RANGES_entries_def)

lemma VITAL_RANGES_temperatureC:
  "VITAL_RANGES ''temperatureC'' =
     Some \<lparr>min_bound = 32.2, max_bound = 43.3, normalMin = Some 36.1, normalMax = Some 37.5,
       unit = [CHR 0xB0, CHR ''C'']\<rparr>"
  by (simp add: VITAL_RANGES_def VITAL_RANGES_entries_def)

lemma VITAL_RANGES_unrecognized:
  "VITAL_RANGES ''bloodGlucose'' = None"
  by (simp add: VITAL_RANGES_def VITAL_RANGES_entries_def)

section \<open>Validation\<close>

text \<open>
  C2. \<open>validateVitalValue\<close> returns no error for an absent value (\<open>undefined\<close>, \<open>null\<close>) and
  for \<open>NaN\<close>, and none when the resolved key is not in the table. For a number and a key
  of the table it returns an error exactly when the number is below \<open>min\<close> or above \<open>max\<close>;
  the error carries the field name and the message
  "<field> must be between <min> and <max> <unit>". A number within \<open>[min, max]\<close> raises
  no error, whatever the normal range. \<open>validate('heartRate', 300)\<close> is the error with the
  bounds 30 and 250, \<open>validate('heartRate', 72)\<close> is none.
\<close>

theorem validateVitalValue_spec:
  "validateVitalValue f Undefined u = None \<and>
   validateVitalValue f Null u = None \<and>
   validateVitalValue f NaN u = None \<and>
   (VITAL_RANGES (rangeKey f u) = None \<longrightarrow> validateVitalValue f val u = None) \<and>
   (VITAL_RANGES (rangeKey f u) = Some rng \<longrightarrow>
      (validateVitalValue f (Num v) u \<noteq> None \<longleftrightarrow> v < min_bound rng \<or> max_bound rng < v) \<and>
      (v < min_bound rng \<or> max_bound rng < v \<longrightarrow>
         validateVitalValue f (Num v) u =
           Some \<lparr>field = f,
             message = f @ '' must be between '' @ number_to_string (min_bound rng) @
               '' and '' @ number_to_string (max_bound rng) @ '' '' @ unit rng\<rparr>) \<and>
      (min_bound rng \<le> v \<and> v \<le> max_bound rng \<longrightarrow> validateVitalValue f (Num v) u = None)) \<and>
   validateVitalValue ''heartRate'' (Num 300) None =
     Some \<lparr>field = ''heartRate'', message = ''heartRate must be between 30 and 250 bpm''\<rparr> \<and>
   validateVitalValue ''heartRate'' (Num 72) None = None"
proof (intro conjI impI)
  show "validateVitalValue f val u = None" if "VITAL_RANGES (rangeKey f u) = None"
    using that by (simp add: validateVitalValue_def split: vital_value.splits)
  show "validateVitalValue ''heartRate'' (Num 300) None =
      Some \<lparr>field = ''heartRate'', message = ''heartRate must be between 30 and 250 bpm''\<rparr>"
    by (simp add: validateVitalValue_def rangeKey_def VITAL_RANGES_heartRate
        number_to_string_def nat_to_string.simps digit_char_def)
  show "validateVitalValue ''heartRate'' (Num 72) None = None"
    by (simp add: validateVitalValue_def rangeKey_def VITAL_RANGES_heartRate)
qed (auto simp add: validateVitalValue_def)

theorem validateVitalValue_spec_witness:
  "VITAL_RANGES (rangeKey ''temperature'' (Some ''C'')) =
     Some \<lparr>min_bound = 32.2, max_bound = 43.3, normalMin = Some 36.1, normalMax = Some 37.5,
       unit = [CHR 0xB0, CHR ''C'']\<rparr> \<and>
   (43.3::real) < 45 \<and>
   validateVitalValue ''temperature'' (Num 45) (Some ''C'') =
     Some \<lparr>field = ''temperature'',
       message = ''temperature must be between 32.2 and 43.3 '' @ [CHR 0xB0, CHR ''C'']\<rparr> \<and>
   (32.2::real) \<le> 39 \<and> (39::real) \<le> 43.3 \<and> (37.5::real) < 39 \<and>
   validateVitalValue ''temperature'' (Num 39) (Some ''C'') = None \<and>
   VITAL_RANGES (rangeKey ''bloodGlucose'' None) = None \<and>
   validateVitalValue ''bloodGlucose'' (Num 5000) None = None"
proof -
  let ?r = "\<lparr>min_bound = 32.2, max_bound = 43.3, normalMin = Some 36.1, normalMax = Some 37.5,
       unit = [CHR 0xB0, CHR ''C'']\<rparr>"
  have k: "VITAL_RANGES (rangeKey ''temperature'' (Some ''C'')) = Some ?r"
    by (simp add: rangeKey_def VITAL_RANGES_temperatureC)
  have n: "VITAL_RANGES (rangeKey ''bloodGlucose'' None) = None"
    by (simp add: rangeKey_def VITAL_RANGES_unrecognized)
  have s: "number_to_string 32.2 = ''32.2''" "number_to_string 43.3 = ''43.3''"
    by (simp_all add: number_to_string_def nat_to_string.simps digit_char_def)
  from validateVitalValue_spec [of "''temperature''" "Some ''C''" "Num 5000" ?r 45]
    validateVitalValue_spec [of "''temperature''" "Some ''C''" "Num 5000" ?r 39]
    validateVitalValue_spec [of "''bloodGlucose''" None "Num 5000" ?r 0]
    k n s
  show ?thesis by simp
qed

section \<open>Classification\<close>

text \<open>
  C8. \<open>isValueNormal\<close> resolves the range key: temperature, weight and height get a key
  that depends on the unit, every other field name is the key. It returns unknown when the
  key is not in the table or its entry has no normal bounds, which is the case for weight
  and height; otherwise low below \<open>normalMin\<close>, high above \<open>normalMax\<close>, and normal in
  between. Heart rate 50 is low, 72 normal, 150 high; a weight of 500 lb is unknown.
\<close>

theorem isValueNormal_spec:
  "rangeKey ''temperature'' u = (if u = Some ''C'' then ''temperatureC'' else ''temperatureF'') \<and>
   rangeKey ''weight'' u = (if u = Some ''kg'' then ''weightKg'' else ''weightLb'') \<and>
   rangeKey ''height'' u = (if u = Some ''cm'' then ''heightCm'' else ''heightIn'') \<and>
   (f \<noteq> ''temperature'' \<and> f \<noteq> ''weight'' \<and> f \<noteq> ''height'' \<longrightarrow> rangeKey f u = f) \<and>
   (isValueNormal f v u = unknown \<longleftrightarrow>
      rangeKey f u \<notin> {''bloodPressureSystolic'', ''bloodPressureDiastolic'', ''heartRate'',
        ''temperatureF'', ''temperatureC'', ''respiratoryRate'', ''oxygenSaturation'',
        ''painLevel''}) \<and>
   (VITAL_RANGES (rangeKey f u) = None \<longrightarrow> isValueNormal f v u = unknown) \<and>
   (VITAL_RANGES (rangeKey f u) = Some rng \<and> normalMin rng = None \<longrightarrow>
      isValueNormal f v u = unknown) \<and>
   isValueNormal ''weight'' v u = unknown \<and>
   isValueNormal ''height'' v u = unknown \<and>
   (VITAL_RANGES (rangeKey f u) = Some rng \<and> normalMin rng = Some lo \<and> normalMax rng = Some hi \<longrightarrow>
      (v < lo \<longrightarrow> isValueNormal f v u = low) \<and>
      (hi < v \<longrightarrow> isValueNormal f v u = high) \<and>
      (lo \<le> v \<and> v \<le> hi \<longrightarrow> isValueNormal f v u = normal)) \<and>
   isValueNormal ''heartRate'' 50 None = low \<and>
   isValueNormal ''heartRate'' 72 None = normal \<and>
   isValueNormal ''heartRate'' 150 None = high \<and>
   isValueNormal ''weight'' 500 (Some ''lb'') = unknown"
proof (intro conjI impI)
  show "isValueNormal f v u = unknown \<longleftrightarrow>
      rangeKey f u \<notin> {''bloodPressureSystolic'', ''bloodPressureDiastolic'', ''heartRate'',
        ''temperatureF'', ''temperatureC'', ''respiratoryRate'', ''oxygenSaturation'',
        ''painLevel''}"
    by (simp add: isValueNormal_def VITAL_RANGES_def VITAL_RANGES_entries_def)
  show "isValueNormal ''weight'' v u = unknown"
    by (simp add: isValueNormal_def rangeKey_def VITAL_RANGES_def VITAL_RANGES_entries_def)
  show "isValueNormal ''height'' v u = unknown"
    by (simp add: isValueNormal_def rangeKey_def VITAL_RANGES_def VITAL_RANGES_entries_def)
  show "isValueNormal ''weight'' 500 (Some ''lb'') = unknown"
    by (simp add: isValueNormal_def rangeKey_def VITAL_RANGES_def VITAL_RANGES_entries_def)
  show "isValueNormal ''heartRate'' 50 None = low"
    by (simp add: isValueNormal_def rangeKey_def VITAL_RANGES_heartRate)
  show "isValueNormal ''heartRate'' 72 None = normal"
    by (simp add: isValueNormal_def rangeKey_def VITAL_RANGES_heartRate)
  show "isValueNormal ''heartRate'' 150 None = high"
    by (simp add: isValueNormal_def rangeKey_def VITAL_RANGES_heartRate)
next
  assume a: "VITAL_RANGES (rangeKey f u) = Some rng \<and> normalMin rng = Some lo \<and>
    normalMax rng = Some hi" and "hi < v"
  moreover from a have "lo \<le> hi"
    using normal_bounds_ordered by blast
  ultimately show "isValueNormal f v u = high"
    by (simp add: isValueNormal_def)
qed (auto simp add: isValueNormal_def rangeKey_def)

theorem isValueNormal_spec_witness:
  "VITAL_RANGES (rangeKey ''temperature'' (Some ''C'')) =
     Some \<lparr>min_bound = 32.2, max_bound = 43.3, normalMin = Some 36.1, normalMax = Some 37.5,
       unit = [CHR 0xB0, CHR ''C'']\<rparr> \<and>
   (35::real) < 36.1 \<and> isValueNormal ''temperature'' 35 (Some ''C'') = low \<and>
   (37.5::real) < 39 \<and> isValueNormal ''temperature'' 39 (Some ''C'') = high \<and>
   (36.1::real) \<le> 37 \<and> (37::real) \<le> 37.5 \<and> isValueNormal ''temperature'' 37 (Some ''C'') = normal \<and>
   VITAL_RANGES (rangeKey ''weight'' (Some ''lb'')) =
     Some \<lparr>min_bound = 1, max_bound = 1000, normalMin = None, normalMax = None,
       unit = ''lb''\<rparr> \<and>
   isValueNormal ''weight'' 165 (Some ''lb'') = unknown \<and>
   VITAL_RANGES (rangeKey ''bloodGlucose'' None) = None \<and>
   rangeKey ''bloodGlucose'' None = ''bloodGlucose'' \<and>
   isValueNormal ''bloodGlucose'' 90 None = unknown"
proof -
  let ?r = "\<lparr>min_bound = 32.2, max_bound = 43.3, normalMin = Some 36.1, normalMax = Some 37.5,
       unit = [CHR 0xB0, CHR ''C'']\<rparr>"
  let ?w = "\<lparr>min_bound = 1, max_bound = 1000, normalMin = None, normalMax = None,
       unit = ''lb''\<rparr>"
  have k: "VITAL_RANGES (rangeKey ''temperature'' (Some ''C'')) = Some ?r"
    by (simp add: rangeKey_def VITAL_RANGES_temperatureC)
  have w: "VITAL_RANGES (rangeKey ''weight'' (Some ''lb'')) = Some ?w"
    by (simp add: rangeKey_def VITAL_RANGES_weightLb)
  have n: "VITAL_RANGES (rangeKey ''bloodGlucose'' None) = None"
    by (simp add: rangeKey_def VITAL_RANGES_unrecognized)
  from isValueNormal_spec [of "Some ''C''" "''temperature''" 35 ?r "361 / 10" "375 / 10"]
    isValueNormal_spec [of "Some ''C''" "''temperature''" 39 ?r "361 / 10" "375 / 10"]
    isValueNormal_spec [of "Some ''C''" "''temperature''" 37 ?r "361 / 10" "375 / 10"]
    isValueNormal_spec [of "Some ''lb''" "''weight''" 165 ?w 0 0]
    isValueNormal_spec [of None "''bloodGlucose''" 90 ?w 0 0]
    k w n
  show ?thesis by simp
qed

section \<open>The virtualization window\<close>

text \<open>
  C1. The window should satisfy \<open>0 \<le> startIndex \<le> endIndex \<le> rowCount\<close> and
  \<open>leadingOffset = startIndex \<times> rowHeight\<close> for every number of rows, every scroll offset
  that is not negative and every positive viewport height. The code bounds \<open>startIndex\<close>
  below by 0 and \<open>endIndex\<close> above by the number of rows, but it does not bound
  \<open>startIndex\<close> by the number of rows. The state \<open>scrollTop\<close> changes on scroll events
  only, so after the data has shrunk the window is recomputed with the old offset: with
  101 rows (above the default threshold of 100), a scroll offset of 8200 left from a longer
  list and a viewport of 600, the window starts at row 195 and ends at row 101.
\<close>

theorem virtualState_stale_scroll:
  "shouldVirtualize 101 100 False \<and> (0::real) \<le> 8200 \<and> (0::real) < 600 \<and>
   virtualState (shouldVirtualize 101 100 False) 101 8200 600 =
     Some \<lparr>totalHeight = 4141, startIndex = 195, endIndex = 101, offsetY = 7995\<rparr> \<and>
   \<not> startIndex \<lparr>totalHeight = 4141, startIndex = 195, endIndex = 101, offsetY = 7995\<rparr>
       \<le> endIndex \<lparr>totalHeight = 4141, startIndex = 195, endIndex = 101, offsetY = 7995\<rparr>"
proof -
  have "\<lfloor>(8200::real) / 41\<rfloor> = 200"
    by (simp add: floor_eq_iff)
  moreover have "\<lceil>(600::real) / 41\<rceil> = 15"
    by (simp add: ceiling_eq_iff)
  ultimately show ?thesis
    by (simp add: shouldVirtualize_def virtualState_def ROW_HEIGHT_def Let_def)
qed

text \<open>
  What does hold. For every number of rows, every scroll offset that is not negative and
  every positive viewport height, the window recomputed while virtualization is active
  (row height 41) satisfies \<open>0 \<le> startIndex\<close>, \<open>0 \<le> endIndex \<le> rowCount\<close> and
  \<open>leadingOffset = startIndex \<times> rowHeight\<close>; and \<open>startIndex \<le> endIndex\<close> holds exactly when
  the scroll offset is below \<open>(rowCount + 6) \<times> rowHeight\<close>, in particular whenever the scroll
  offset is at most the total height \<open>rowCount \<times> rowHeight\<close>.
\<close>

lemma virtualState_window:
  assumes "0 \<le> scrollTop" "0 < containerHeight"
  shows "\<exists>w. virtualState True dataLength scrollTop containerHeight = Some w \<and>
    ROW_HEIGHT = 41 \<and>
    0 \<le> startIndex w \<and> 0 \<le> endIndex w \<and> endIndex w \<le> int dataLength \<and>
    offsetY w = of_int (startIndex w) * ROW_HEIGHT \<and>
    (startIndex w \<le> endIndex w \<longleftrightarrow> scrollTop < (real dataLength + 6) * ROW_HEIGHT) \<and>
    (scrollTop \<le> real dataLength * ROW_HEIGHT \<longrightarrow> startIndex w \<le> endIndex w)"
proof -
  define q where "q = \<lfloor>scrollTop / 41\<rfloor>"
  define c where "c = \<lceil>containerHeight / 41\<rceil>"
  have c: "0 < c"
    unfolding c_def using assms(2) by (simp add: less_ceiling_iff)
  have q: "0 \<le> q"
    unfolding q_def using assms(1) by simp
  have iff: "q - 5 \<le> int dataLength \<longleftrightarrow> scrollTop < (real dataLength + 6) * 41"
  proof -
    have "q - 5 \<le> int dataLength \<longleftrightarrow> q < int dataLength + 6"
      by linarith
    also have "\<dots> \<longleftrightarrow> scrollTop / 41 < of_int (int dataLength + 6)"
      unfolding q_def by (rule floor_less_iff)
    also have "\<dots> \<longleftrightarrow> scrollTop < (real dataLength + 6) * 41"
      by (simp add: field_simps)
    finally show ?thesis .
  qed
  have w: "virtualState True dataLength scrollTop containerHeight =
    Some \<lparr>totalHeight = real dataLength * 41, startIndex = max 0 (q - 5),
      endIndex = min (int dataLength) (max 0 (q - 5) + (c + 10)),
      offsetY = of_int (max 0 (q - 5)) * 41\<rparr>"
    by (simp add: virtualState_def ROW_HEIGHT_def Let_def q_def c_def)
  have e: "max 0 (q - 5) \<le> min (int dataLength) (max 0 (q - 5) + (c + 10)) \<longleftrightarrow>
      q - 5 \<le> int dataLength"
    using c by auto
  show ?thesis
    unfolding w ROW_HEIGHT_def using c q iff e by auto
qed

lemma virtualState_window_example:
  "(0::real) \<le> 8200 \<and> (0::real) < 600 \<and> (8200::real) \<le> real 1000 * ROW_HEIGHT \<and>
   (\<exists>w. virtualState True 1000 8200 600 = Some w \<and> startIndex w = 195 \<and> endIndex w = 220 \<and>
      startIndex w \<le> endIndex w \<and> endIndex w \<le> 1000 \<and> offsetY w = 7995)"
proof -
  have "\<lfloor>(8200::real) / 41\<rfloor> = 200"
    by (simp add: floor_eq_iff)
  moreover have "\<lceil>(600::real) / 41\<rceil> = 15"
    by (simp add: ceiling_eq_iff)
  ultimately have v: "virtualState True 1000 8200 600 =
      Some \<lparr>totalHeight = 41000, startIndex = 195, endIndex = 220, offsetY = 7995\<rparr>"
    by (simp add: virtualState_def ROW_HEIGHT_def Let_def)
  have h: "(0::real) \<le> 8200" "(0::real) < 600"
    by simp_all
  from virtualState_window [OF h, of 1000] obtain w where
    w: "virtualState True 1000 8200 600 = Some w"
      "(8200::real) \<le> real 1000 * ROW_HEIGHT \<longrightarrow> startIndex w \<le> endIndex w"
      "endIndex w \<le> int 1000" "offsetY w = of_int (startIndex w) * ROW_HEIGHT"
    by blast
  from w(1) v have "w = \<lparr>totalHeight = 41000, startIndex = 195, endIndex = 220, offsetY = 7995\<rparr>"
    by simp
  with w show ?thesis
    by (simp add: ROW_HEIGHT_def)
qed

section \<open>Zero as the unset value\<close>

lemma validateVitalValue_field:
  "validateVitalValue f val u = Some e \<Longrightarrow> field e = f"
  by (auto simp add: validateVitalValue_def split: vital_value.splits option.splits if_splits)

text \<open>
  Every error the loop adds, to the list or to the object, belongs to an entry whose value
  is not zero.
\<close>

lemma validationLoop_sources:
  "validationLoop l errs m = (errs', m') \<Longrightarrow>
     (\<forall>e \<in> set errs'. e \<in> set errs \<or> (\<exists>v u. (field e, v, u) \<in> set l \<and> v \<noteq> 0)) \<and>
     (\<forall>k. m' k \<noteq> None \<longrightarrow> m k \<noteq> None \<or> (\<exists>v u. (k, v, u) \<in> set l \<and> v \<noteq> 0))"
proof (induction l arbitrary: errs m)
  case Nil
  then show ?case by auto
next
  case (Cons a l)
  obtain f v u where a: "a = (f, v, u)" by (cases a)
  have sub: "\<And>x. x \<in> set l \<Longrightarrow> x \<in> set (a # l)" by simp
  show ?case
  proof (cases "v = 0 \<or> validateVitalValue f (Num v) u = None")
    case True
    with Cons.prems a have "validationLoop l errs m = (errs', m')"
      by (auto split: if_splits)
    from Cons.IH [OF this] sub show ?thesis by blast
  next
    case False
    then obtain err where err: "validateVitalValue f (Num v) u = Some err" and v: "v \<noteq> 0"
      by auto
    with Cons.prems a
    have "validationLoop l (errs @ [err]) (m(f \<mapsto> message err)) = (errs', m')" by simp
    from Cons.IH [OF this]
    have 1: "\<forall>e \<in> set errs'. e \<in> set (errs @ [err]) \<or>
          (\<exists>v u. (field e, v, u) \<in> set l \<and> v \<noteq> 0)"
      and 2: "\<forall>k. m' k \<noteq> None \<longrightarrow> (m(f \<mapsto> message err)) k \<noteq> None \<or>
          (\<exists>v u. (k, v, u) \<in> set l \<and> v \<noteq> 0)"
      by blast+
    have here: "(field err, v, u) \<in> set (a # l)" "(f, v, u) \<in> set (a # l)"
      using validateVitalValue_field [OF err] by (simp_all add: a)
    have "\<forall>e \<in> set errs'. e \<in> set errs \<or> (\<exists>v u. (field e, v, u) \<in> set (a # l) \<and> v \<noteq> 0)"
    proof
      fix e assume "e \<in> set errs'"
      with 1 have "e \<in> set (errs @ [err]) \<or> (\<exists>v u. (field e, v, u) \<in> set l \<and> v \<noteq> 0)"
        by blast
      then have "e \<in> set errs \<or> e = err \<or> (\<exists>v u. (field e, v, u) \<in> set l \<and> v \<noteq> 0)"
        by simp blast
      then show "e \<in> set errs \<or> (\<exists>v u. (field e, v, u) \<in> set (a # l) \<and> v \<noteq> 0)"
        using here(1) v sub by (elim disjE) blast+
    qed
    moreover have "\<forall>k. m' k \<noteq> None \<longrightarrow> m k \<noteq> None \<or>
        (\<exists>v u. (k, v, u) \<in> set (a # l) \<and> v \<noteq> 0)"
    proof (intro allI impI)
      fix k assume "m' k \<noteq> None"
      with 2 have "(m(f \<mapsto> message err)) k \<noteq> None \<or> (\<exists>v u. (k, v, u) \<in> set l \<and> v \<noteq> 0)"
        by blast
      then have "k = f \<or> m k \<noteq> None \<or> (\<exists>v u. (k, v, u) \<in> set l \<and> v \<noteq> 0)"
        by (cases "k = f") simp_all
      then show "m k \<noteq> None \<or> (\<exists>v u. (k, v, u) \<in> set (a # l) \<and> v \<noteq> 0)"
        using here(2) v sub by (elim disjE) blast+
    qed
    ultimately show ?thesis by blast
  qed
qed

lemma fieldsToValidate_distinct: "distinct (map fst (fieldsToValidate vitals))"
  by (simp add: fieldsToValidate_def)

lemma zero_field_listed:
  assumes "vitals_property vitals f = Number 0"
  shows "\<exists>u. (f, 0, u) \<in> set (fieldsToValidate vitals)"
  using assms
  by (auto simp add: vitals_property_def fieldsToValidate_def split: if_splits)

lemma zero_field_only:
  assumes "vitals_property vitals f = Number 0" "(f, v, u) \<in> set (fieldsToValidate vitals)"
  shows "v = 0"
proof -
  from zero_field_listed [OF assms(1)] obtain u' where
    "(f, 0, u') \<in> set (fieldsToValidate vitals)"
    by blast
  with assms(2) fieldsToValidate_distinct [of vitals] have "(v, u) = (0, u')"
    by (meson eq_key_imp_eq_value)
  then show ?thesis by simp
qed

text \<open>
  C3. A field of the vitals that holds exactly zero is treated as unset: the validation
  pass puts no error for it into its list, reports none for it through
  \<open>onValidationError\<close>, stores no message for it, and \<open>getAbnormalIndicator\<close> shows no Low or
  High flag for it, whether or not zero lies within the field's range \<open>[min, max]\<close>.
\<close>

theorem zero_is_unset:
  assumes "vitals_property vitals f = Number 0"
  shows "f \<notin> field ` set (fst (validationLoop (fieldsToValidate vitals) [] Map.empty)) \<and>
    setErrors (runValidation vitals cb) f = None \<and>
    (case onValidationError (runValidation vitals cb) of
       None \<Rightarrow> True
     | Some errs \<Rightarrow> f \<notin> field ` set errs) \<and>
    getAbnormalIndicator vitals f u = None"
proof -
  obtain errs m where loop: "validationLoop (fieldsToValidate vitals) [] Map.empty = (errs, m)"
    by (cases "validationLoop (fieldsToValidate vitals) [] Map.empty")
  from validationLoop_sources [OF loop]
  have 1: "\<forall>e \<in> set errs. \<exists>v u. (field e, v, u) \<in> set (fieldsToValidate vitals) \<and> v \<noteq> 0"
    and 2: "\<forall>k. m k \<noteq> None \<longrightarrow> (\<exists>v u. (k, v, u) \<in> set (fieldsToValidate vitals) \<and> v \<noteq> 0)"
    by simp_all
  have a: "f \<notin> field ` set errs"
    using 1 zero_field_only [OF assms] by blast
  have b: "m f = None"
    using 2 zero_field_only [OF assms] by blast
  have c: "getAbnormalIndicator vitals f u = None"
    using assms by (simp add: getAbnormalIndicator_def)
  show ?thesis
    using a b c by (simp add: runValidation_def loop)
qed

theorem zero_is_unset_witness:
  "vitals_property (DEFAULT_VITALS\<lparr>bloodPressureSystolic := 300\<rparr>) ''heartRate'' = Number 0 \<and>
   validateVitalValue ''heartRate'' (Num 0) None =
     Some \<lparr>field = ''heartRate'', message = ''heartRate must be between 30 and 250 bpm''\<rparr> \<and>
   isValueNormal ''heartRate'' 0 None = low \<and>
   onValidationError (runValidation (DEFAULT_VITALS\<lparr>bloodPressureSystolic := 300\<rparr>) True) =
     Some [\<lparr>field = ''bloodPressureSystolic'',
       message = ''bloodPressureSystolic must be between 70 and 200 mmHg''\<rparr>] \<and>
   setErrors (runValidation (DEFAULT_VITALS\<lparr>bloodPressureSystolic := 300\<rparr>) True) ''heartRate''
     = None \<and>
   getAbnormalIndicator (DEFAULT_VITALS\<lparr>bloodPressureSystolic := 300\<rparr>) ''heartRate'' None = None"
proof -
  let ?V = "DEFAULT_VITALS\<lparr>bloodPressureSystolic := 300\<rparr>"
  have p: "vitals_property ?V ''heartRate'' = Number 0"
    by (simp add: vitals_property_def DEFAULT_VITALS_def)
  have v: "validateVitalValue ''heartRate'' (Num 0) None =
     Some \<lparr>field = ''heartRate'', message = ''heartRate must be between 30 and 250 bpm''\<rparr>"
    by (simp add: validateVitalValue_def rangeKey_def VITAL_RANGES_heartRate
        number_to_string_def nat_to_string.simps digit_char_def)
  have n: "isValueNormal ''heartRate'' 0 None = low"
    by (simp add: isValueNormal_def rangeKey_def VITAL_RANGES_heartRate)
  have r: "onValidationError (runValidation ?V True) =
     Some [\<lparr>field = ''bloodPressureSystolic'',
       message = ''bloodPressureSystolic must be between 70 and 200 mmHg''\<rparr>]"
    by (simp add: runValidation_def fieldsToValidate_def DEFAULT_VITALS_def
        validateVitalValue_def rangeKey_def VITAL_RANGES_def VITAL_RANGES_entries_def
        number_to_string_def nat_to_string.simps digit_char_def)
  from zero_is_unset [OF p, of True None] p v n r show ?thesis
    by simp
qed

section \<open>Sorting\<close>

text \<open>
  C5. A click on a column that is not sortable calls nothing, and the sort state stays as
  it is. A click on a sortable column \<open>c\<close> reports \<open>(c, desc)\<close> when the current state is
  \<open>(c, asc)\<close> and \<open>(c, asc)\<close> in every other case: another current column, the same
  column descending, or a state whose column names no column. So from a state that names
  no column, clicking age gives \<open>(age, asc)\<close>, clicking age again \<open>(age, desc)\<close>, a third
  click \<open>(age, asc)\<close>, and clicking name \<open>(name, asc)\<close>.
\<close>

theorem handleSort_next_state:
  "(sortable col \<noteq> Some True \<longrightarrow>
      handleSort (Some s) col = None \<and> sortableComponentClick s col = s) \<and>
   (sortable col = Some True \<and> column s = id_col col \<and> direction s = asc \<longrightarrow>
      handleSort (Some s) col = Some (id_col col, desc) \<and>
      sortableComponentClick s col = \<lparr>column = id_col col, direction = desc\<rparr>) \<and>
   (sortable col = Some True \<and> \<not> (column s = id_col col \<and> direction s = asc) \<longrightarrow>
      handleSort (Some s) col = Some (id_col col, asc) \<and>
      sortableComponentClick s col = \<lparr>column = id_col col, direction = asc\<rparr>) \<and>
   (sortable col = Some True \<and> \<not> (column s = id_col col \<and> direction s = asc) \<longrightarrow>
      sortableComponentClick (sortableComponentClick s col) col =
        \<lparr>column = id_col col, direction = desc\<rparr> \<and>
      sortableComponentClick (sortableComponentClick (sortableComponentClick s col) col) col =
        \<lparr>column = id_col col, direction = asc\<rparr>)"
  by (auto simp add: handleSort_def sortableComponentClick_def Let_def)

theorem handleSort_next_state_witness:
  "sortable \<lparr>id_col = ''age'', sortable = Some True\<rparr> = Some True \<and>
   sortable \<lparr>id_col = ''notes'', sortable = None\<rparr> \<noteq> Some True \<and>
   sortableComponentClick \<lparr>column = [], direction = desc\<rparr>
     \<lparr>id_col = ''age'', sortable = Some True\<rparr> = \<lparr>column = ''age'', direction = asc\<rparr> \<and>
   sortableComponentClick \<lparr>column = ''age'', direction = asc\<rparr>
     \<lparr>id_col = ''age'', sortable = Some True\<rparr> = \<lparr>column = ''age'', direction = desc\<rparr> \<and>
   sortableComponentClick \<lparr>column = ''age'', direction = desc\<rparr>
     \<lparr>id_col = ''name'', sortable = Some True\<rparr> = \<lparr>column = ''name'', direction = asc\<rparr> \<and>
   sortableComponentClick \<lparr>column = ''age'', direction = desc\<rparr>
     \<lparr>id_col = ''age'', sortable = Some True\<rparr> = \<lparr>column = ''age'', direction = asc\<rparr> \<and>
   sortableComponentClick \<lparr>column = ''age'', direction = desc\<rparr>
     \<lparr>id_col = ''notes'', sortable = None\<rparr> = \<lparr>column = ''age'', direction = desc\<rparr>"
  using
    handleSort_next_state [of "\<lparr>id_col = ''age'', sortable = Some True\<rparr>"
      "\<lparr>column = [], direction = desc\<rparr>"]
    handleSort_next_state [of "\<lparr>id_col = ''age'', sortable = Some True\<rparr>"
      "\<lparr>column = ''age'', direction = asc\<rparr>"]
    handleSort_next_state [of "\<lparr>id_col = ''name'', sortable = Some True\<rparr>"
      "\<lparr>column = ''age'', direction = desc\<rparr>"]
    handleSort_next_state [of "\<lparr>id_col = ''age'', sortable = Some True\<rparr>"
      "\<lparr>column = ''age'', direction = desc\<rparr>"]
    handleSort_next_state [of "\<lparr>id_col = ''notes'', sortable = None\<rparr>"
      "\<lparr>column = ''age'', direction = desc\<rparr>"]
  by simp

section \<open>Selecting all rows\<close>

lemma isAllSelected_iff:
  "isAllSelected (Some s) data rk \<longleftrightarrow>
     data \<noteq> [] \<and> set (rowKeys data rk) \<subseteq> set (selected s)"
  by (auto simp add: isAllSelected_def rowKeys_def list_all_iff)

lemma rowKeys_nth:
  "length (rowKeys data rk) = length data \<and>
   (\<forall>i < length data. rowKeys data rk ! i = getRowKey (data ! i) i rk)"
  by (simp add: rowKeys_def nth_enumerate_eq)

text \<open>
  C4. The select-all toggle, over the rows the table was given as \<open>data\<close>: when the key of
  every row is in the selected list, the new selection is empty; otherwise it is the list
  of the keys of all rows, in row order. It replaces the selection: a key that was
  selected and is the key of no current row is not in the result.
\<close>

theorem handleSelectAll_toggle:
  "(set (rowKeys data rk) \<subseteq> set (selected s) \<longrightarrow> handleSelectAll (Some s) data rk = Some []) \<and>
   (\<not> set (rowKeys data rk) \<subseteq> set (selected s) \<longrightarrow>
      handleSelectAll (Some s) data rk = Some (rowKeys data rk)) \<and>
   (\<forall>res k. handleSelectAll (Some s) data rk = Some res \<and> k \<in> set (selected s) \<and>
      k \<notin> set (rowKeys data rk) \<longrightarrow> k \<notin> set res) \<and>
   length (rowKeys data rk) = length data \<and>
   (\<forall>i < length data. rowKeys data rk ! i = getRowKey (data ! i) i rk)"
proof (intro conjI impI allI)
  show "handleSelectAll (Some s) data rk = Some []"
    if "set (rowKeys data rk) \<subseteq> set (selected s)"
  proof (cases "data = []")
    case True
    then show ?thesis
      by (simp add: handleSelectAll_def isAllSelected_iff rowKeys_def)
  next
    case False
    with that show ?thesis
      by (simp add: handleSelectAll_def isAllSelected_iff)
  qed
  show "handleSelectAll (Some s) data rk = Some (rowKeys data rk)"
    if "\<not> set (rowKeys data rk) \<subseteq> set (selected s)"
    using that by (simp add: handleSelectAll_def isAllSelected_iff)
  show "k \<notin> set res"
    if "handleSelectAll (Some s) data rk = Some res \<and> k \<in> set (selected s) \<and>
      k \<notin> set (rowKeys data rk)" for res k
    using that by (auto simp add: handleSelectAll_def split: if_splits)
  show "length (rowKeys data rk) = length data"
    using rowKeys_nth by blast
  show "rowKeys data rk ! i = getRowKey (data ! i) i rk" if "i < length data" for i
    using that rowKeys_nth by blast
qed

theorem handleSelectAll_toggle_witness:
  "rowKeys [\<lambda>k. if k = ''id'' then JString ''1'' else JUndefined,
       \<lambda>k. if k = ''id'' then JString ''2'' else JUndefined,
       \<lambda>k. if k = ''id'' then JString ''3'' else JUndefined] None = [''1'', ''2'', ''3''] \<and>
   \<not> set [''1'', ''2'', ''3''] \<subseteq> set [''1'', ''9''] \<and>
   handleSelectAll (Some \<lparr>selected = [''1'', ''9''], mode = multiple\<rparr>)
     [\<lambda>k. if k = ''id'' then JString ''1'' else JUndefined,
      \<lambda>k. if k = ''id'' then JString ''2'' else JUndefined,
      \<lambda>k. if k = ''id'' then JString ''3'' else JUndefined] None = Some [''1'', ''2'', ''3''] \<and>
   set [''1'', ''2'', ''3''] \<subseteq> set [''3'', ''2'', ''1'', ''9''] \<and>
   handleSelectAll (Some \<lparr>selected = [''3'', ''2'', ''1'', ''9''], mode = multiple\<rparr>)
     [\<lambda>k. if k = ''id'' then JString ''1'' else JUndefined,
      \<lambda>k. if k = ''id'' then JString ''2'' else JUndefined,
      \<lambda>k. if k = ''id'' then JString ''3'' else JUndefined] None = Some []"
proof -
  let ?data = "[\<lambda>k. if k = ''id'' then JString ''1'' else JUndefined,
       \<lambda>k. if k = ''id'' then JString ''2'' else JUndefined,
       \<lambda>k. if k = ''id'' then JString ''3'' else JUndefined]"
  have k: "rowKeys ?data None = [''1'', ''2'', ''3'']"
    by (simp add: rowKeys_def getRowKey_def Let_def)
  from handleSelectAll_toggle [of ?data None "\<lparr>selected = [''1'', ''9''], mode = multiple\<rparr>"]
    handleSelectAll_toggle [of ?data None
      "\<lparr>selected = [''3'', ''2'', ''1'', ''9''], mode = multiple\<rparr>"]
  show ?thesis
    unfolding k by simp
qed

section \<open>Row keys\<close>

lemma digit_value_digit_char:
  assumes "d < 10"
  shows "digit_value (digit_char d) = d"
proof -
  from assms have
    "d = 0 \<or> d = 1 \<or> d = 2 \<or> d = 3 \<or> d = 4 \<or> d = 5 \<or> d = 6 \<or> d = 7 \<or> d = 8 \<or> d = 9"
    by arith
  then show ?thesis
    by (elim disjE) (simp_all add: digit_char_def digit_value_def)
qed

lemma string_to_nat_snoc:
  "string_to_nat (s @ [c]) = 10 * string_to_nat s + digit_value c"
  by (simp add: string_to_nat_def)

lemma string_to_nat_nat_to_string:
  "string_to_nat (nat_to_string n) = n"
proof (induction n rule: nat_to_string.induct)
  case (1 n)
  show ?case
  proof (cases "n < 10")
    case True
    then have "nat_to_string n = [digit_char n]"
      by (simp add: nat_to_string.simps)
    then show ?thesis
      using True by (simp add: string_to_nat_def digit_value_digit_char)
  next
    case False
    then have "nat_to_string n = nat_to_string (n div 10) @ [digit_char (n mod 10)]"
      by (subst nat_to_string.simps) simp
    then show ?thesis
      using False "1.IH" by (simp add: string_to_nat_snoc digit_value_digit_char)
  qed
qed

lemma nat_to_string_inject:
  "nat_to_string i = nat_to_string j \<longleftrightarrow> i = j"
  by (metis string_to_nat_nat_to_string)

text \<open>
  C10. When no \<open>rowKey\<close> is configured and the \<open>id\<close> property of a row is \<open>null\<close> or
  \<open>undefined\<close>, the key of the row is its index as a decimal string. Two such rows at
  different positions get different keys, and the key of such a row at one position is not
  its key at another position.
\<close>

theorem getRowKey_index_fallback:
  assumes "r ''id'' = JNull \<or> r ''id'' = JUndefined"
  shows "getRowKey r i None = nat_to_string i \<and>
    (\<forall>r' j. (r' ''id'' = JNull \<or> r' ''id'' = JUndefined) \<and> i \<noteq> j \<longrightarrow>
       getRowKey r i None \<noteq> getRowKey r' j None) \<and>
    (\<forall>j. i \<noteq> j \<longrightarrow> getRowKey r j None \<noteq> getRowKey r i None)"
proof -
  have key: "getRowKey r' j None = nat_to_string j"
    if "r' ''id'' = JNull \<or> r' ''id'' = JUndefined" for r' j
    using that by (auto simp add: getRowKey_def Let_def)
  show ?thesis
    using key [of r, OF assms] key by (simp add: nat_to_string_inject)
qed

theorem getRowKey_index_fallback_witness:
  "(\<lambda>k. if k = ''name'' then JString ''Alice'' else JUndefined) ''id'' = JUndefined \<and>
   (\<lambda>k. if k = ''id'' then JNull else JUndefined) ''id'' = JNull \<and>
   getRowKey (\<lambda>k. if k = ''name'' then JString ''Alice'' else JUndefined) 12 None = ''12'' \<and>
   (12::nat) \<noteq> 7 \<and>
   getRowKey (\<lambda>k. if k = ''name'' then JString ''Alice'' else JUndefined) 12 None \<noteq>
     getRowKey (\<lambda>k. if k = ''id'' then JNull else JUndefined) 7 None \<and>
   getRowKey (\<lambda>k. if k = ''name'' then JString ''Alice'' else JUndefined) 7 None \<noteq>
     getRowKey (\<lambda>k. if k = ''name'' then JString ''Alice'' else JUndefined) 12 None"
proof -
  let ?r = "\<lambda>k. if k = ''name'' then JString ''Alice'' else JUndefined"
  let ?r' = "\<lambda>k. if k = ''id'' then JNull else JUndefined"
  have a: "?r ''id'' = JNull \<or> ?r ''id'' = JUndefined"
    by simp
  have b: "?r' ''id'' = JNull \<or> ?r' ''id'' = JUndefined"
    by simp
  have s: "nat_to_string 12 = ''12''"
    by (simp add: nat_to_string.simps digit_char_def)
  note t = getRowKey_index_fallback [of ?r 12, OF a]
  from t have k: "getRowKey ?r 12 None = nat_to_string 12"
    by blast
  from t have "\<And>r' j. (r' ''id'' = JNull \<or> r' ''id'' = JUndefined) \<and> 12 \<noteq> j \<Longrightarrow>
      getRowKey ?r 12 None \<noteq> getRowKey r' j None"
    by blast
  from this [of ?r' 7] b have d: "getRowKey ?r 12 None \<noteq> getRowKey ?r' 7 None"
    by simp
  from t have "\<And>j. 12 \<noteq> j \<Longrightarrow> getRowKey ?r j None \<noteq> getRowKey ?r 12 None"
    by blast
  from this [of 7] have e: "getRowKey ?r 7 None \<noteq> getRowKey ?r 12 None"
    by simp
  from k d e s show ?thesis
    by simp
qed

end
